theory Spec2Isabelle
  imports Main "HOL-Library.Sublist"
begin

section \<open>Go values: errors, panics and strings\<close>

text \<open>
  A Go \<open>string\<close> is a sequence of bytes; \<open>len\<close>, \<open>strings.Index\<close> and the slice
  expressions count bytes. So a Go string is an Isabelle \<open>string\<close> (a list of 8-bit
  characters) and \<open>len s\<close> is \<open>length s\<close>.

  The errors that \<open>ExecuteTool\<close> and the two LLM calls produce, named as the
  specification's taxonomy names them:
  \<^item> \<open>InvalidArguments e\<close> is \<open>fmt.Errorf("invalid JSON arguments: %w", err)\<close>;
  \<^item> \<open>UnknownProvider\<close> is the error of \<open>slices.Find\<close> when no server has the name;
  \<^item> \<open>ToolExecutionFailed e\<close> is \<open>fmt.Errorf("failed to call mcp tool: %w", err)\<close>;
  \<^item> \<open>MarshalFailed e\<close> is \<open>fmt.Errorf("failed to marshal mcp tool result: %w", err)\<close>;
  \<^item> \<open>GenerationFailed e\<close> is the error of \<open>m.LLMModel.GenerateContent\<close>, passed on as
    it is.
  The payload is the text of the wrapped library error.
\<close>

datatype error =
    InvalidArguments string
  | UnknownProvider
  | ToolExecutionFailed string
  | MarshalFailed string
  | GenerationFailed string

text \<open>
  A Go call either returns or panics. \<open>panic(err)\<close> carries the error; an out-of-range
  slice expression and an out-of-range index are run-time panics.
\<close>

datatype panic = PanicError error | SliceBoundsOutOfRange | IndexOutOfRange

datatype 'a outcome = Returns 'a | Panics panic

text \<open>
  \<open>strings.Index(s, substr)\<close>: the index of the first instance of \<open>substr\<close> in \<open>s\<close>,
  or \<open>-1\<close> if \<open>substr\<close> is not present.
\<close>

fun Index :: "string \<Rightarrow> string \<Rightarrow> int" where
  "Index [] substr = (if substr = [] then 0 else -1)"
| "Index (c # cs) substr =
     (if take (length substr) (c # cs) = substr then 0
      else (let i = Index cs substr in if i < 0 then -1 else i + 1))"

text \<open>
  The slice expressions \<open>s[:hi]\<close> and \<open>s[lo:]\<close> on a string, with the bound an \<open>int\<close>:
  the run time panics unless \<open>0 \<le> hi \<le> len(s)\<close>, respectively \<open>0 \<le> lo \<le> len(s)\<close>.
\<close>

definition slice_to :: "string \<Rightarrow> int \<Rightarrow> string outcome" where
  "slice_to s hi =
     (if 0 \<le> hi \<and> hi \<le> int (length s) then Returns (take (nat hi) s)
      else Panics SliceBoundsOutOfRange)"

definition slice_from :: "string \<Rightarrow> int \<Rightarrow> string outcome" where
  "slice_from s lo =
     (if 0 \<le> lo \<and> lo \<le> int (length s) then Returns (drop (nat lo) s)
      else Panics SliceBoundsOutOfRange)"

section \<open>Data model\<close>

text \<open>
  The structs of \<open>langchaingo/llms\<close> and \<open>mcp-go\<close> that the agent reads and builds,
  with the fields the agent touches. \<open>ToolCallResponse\<close> has a third field \<open>Name\<close>
  that the agent never sets. A \<open>ToolCall\<close>'s \<open>FunctionCall\<close> is taken as present, and
  its two fields are fields of the \<open>ToolCall\<close>.
\<close>

datatype ToolCall = ToolCall (ID: string) (FunctionCall_Name: string)
  (FunctionCall_Arguments: string)

datatype ContentPart =
    TextContent string
  | ToolCallPart ToolCall
  | ToolCallResponse (ToolCallID: string) (ResponseContent: string)

datatype MessageContent = MessageContent (Role: string) (Parts: "ContentPart list")

datatype ContentChoice = ContentChoice (Content: string) (ToolCalls: "ToolCall list")

datatype ContentResponse = ContentResponse (Choices: "ContentChoice list")

text \<open>\<open>mcp.Tool\<close>, \<open>llms.Tool\<close> with its \<open>FunctionDefinition\<close>, and \<open>mcp.CallToolResult\<close>.\<close>

datatype Tool = Tool (tool_Name: string) (tool_Description: string)
  (InputSchema_Type: string) (InputSchema_Properties: string)

datatype llms_Tool = llms_Tool (Type: string) (Function_Name: string)
  (Function_Description: string) (Function_Parameters: "(string \<times> string) list")

datatype CallToolResult = CallToolResult (IsError: bool) (result_Content: "string list")

text \<open>
  \<open>server.MCPServer\<close>: its name and its client. The client is a connection; \<open>Client\<close>
  is a handle naming it, so that two servers of one name stay different values.
\<close>

datatype MCPServer = MCPServer (server_Name: string) (Client: nat)

text \<open>
  \<open>MCPAgent\<close>. \<open>MCPServerTools\<close> is a Go map from server names to tools; the list
  gives its entries in the order in which \<open>range\<close> visits them.
\<close>

record MCPAgent =
  agent_Name :: string
  MCPServerTools :: "(string \<times> Tool list) list"
  mcpServers :: "MCPServer list"
  Provider :: string

section \<open>The collaborators: LLM, tool providers, JSON\<close>

text \<open>
  A value decoded by \<open>encoding/json\<close> into \<open>any\<close>: \<open>nil\<close>, \<open>bool\<close>, \<open>float64\<close>
  (kept as the text of the literal), \<open>string\<close>, \<open>[]interface{}\<close> and
  \<open>map[string]interface{}\<close> (its entries as an association list, read with \<open>map_of\<close>).
\<close>

datatype json =
    JNull
  | JBool bool
  | JNumber string
  | JString string
  | JArray "json list"
  | JObject "(string \<times> json) list"

text \<open>
  The trace of a turn: every call of the LLM, every contact of a provider and every tool
  execution, each with its result, in the order they happen. It is the history that the
  collaborators may depend on, and it is what the theorems count.
\<close>

datatype event =
    LLMCall "MessageContent list" "string + ContentResponse"
  | ProviderCall MCPServer string "string option" "string + CallToolResult"
  | Executed string string "(error + string) outcome"

text \<open>
  One call of \<open>LLMModel.GenerateContent\<close>: the fragments handed to the streaming function,
  in order, and the result (the error's text, or the response).
\<close>

datatype Generation = Generation (Chunks: "string list") (Result: "string + ContentResponse")

text \<open>
  The collaborators are parameters. \<open>LLMModel\<close> and \<open>CallTool\<close> take the trace so far, so
  that two calls with the same arguments may answer differently.
  \<^item> \<open>LLMModel tr msgs tools\<close> is \<open>m.LLMModel.GenerateContent(ctx, msgs, llms.WithTools(tools), ...)\<close>;
  \<^item> \<open>CallTool tr srv name arguments\<close> is \<open>srv.Client.CallTool\<close> with \<open>Params.Name = name\<close> and
    \<open>Params.Arguments = arguments\<close> (\<open>None\<close> is \<open>nil\<close>, \<open>Some s\<close> is \<open>json.RawMessage(s)\<close>);
  \<^item> \<open>MarshalString\<close> is \<open>sonic.MarshalString\<close>;
  \<^item> \<open>Unmarshal s\<close> is \<open>json.Unmarshal([]byte(s), &v)\<close> for \<open>v\<close> of type \<open>any\<close>: the text
    of the syntax error when \<open>s\<close> is not syntactically valid JSON, the decoded value
    otherwise;
  \<^item> \<open>ErrNotFound\<close> is the text of the error of \<open>slices.Find\<close>.
\<close>

record env =
  LLMModel :: "event list \<Rightarrow> MessageContent list \<Rightarrow> llms_Tool list \<Rightarrow> Generation"
  CallTool :: "event list \<Rightarrow> MCPServer \<Rightarrow> string \<Rightarrow> string option \<Rightarrow> string + CallToolResult"
  MarshalString :: "CallToolResult \<Rightarrow> string + string"
  Unmarshal :: "string \<Rightarrow> string + json"
  ErrNotFound :: string

text \<open>The text of an error, as \<open>%v\<close> prints it.\<close>

fun Error :: "env \<Rightarrow> error \<Rightarrow> string" where
  "Error env (InvalidArguments e) = ''invalid JSON arguments: '' @ e"
| "Error env UnknownProvider = ErrNotFound env"
| "Error env (ToolExecutionFailed e) = ''failed to call mcp tool: '' @ e"
| "Error env (MarshalFailed e) = ''failed to marshal mcp tool result: '' @ e"
| "Error env (GenerationFailed e) = e"

section \<open>Tool catalog: \<open>ExtractToolsFromAgent\<close>\<close>

definition ExtractToolsFromAgent :: "MCPAgent \<Rightarrow> llms_Tool list" where
  "ExtractToolsFromAgent m =
     concat (map (\<lambda>(serverName, agTs).
       map (\<lambda>agT. llms_Tool ''function'' (serverName @ ''__'' @ tool_Name agT)
              (tool_Description agT)
              [(''type'', InputSchema_Type agT), (''properties'', InputSchema_Properties agT)])
         agTs) (MCPServerTools m))"

section \<open>Tool invoker: \<open>ExecuteTool\<close>\<close>

text \<open>
  \<open>ExecuteTool\<close> takes the trace and returns it extended by the provider contact, if one
  happens. The steps are those of the source, in its order: the check of the arguments, the
  two slice expressions on the tool name, \<open>slices.Find\<close> on the agent's servers (the first
  server of that name), \<open>CallTool\<close>, \<open>sonic.MarshalString\<close>.
\<close>

definition ExecuteTool ::
  "env \<Rightarrow> MCPAgent \<Rightarrow> event list \<Rightarrow> string \<Rightarrow> string \<Rightarrow> (error + string) outcome \<times> event list" where
  "ExecuteTool env m tr toolName argumentsInJSON =
     (case (if argumentsInJSON = '''' \<or> argumentsInJSON = ''{}'' then Inr None
            else (case Unmarshal env argumentsInJSON of
                    Inl err \<Rightarrow> Inl (InvalidArguments err)
                  | Inr temp \<Rightarrow> Inr (Some argumentsInJSON))) of
        Inl err \<Rightarrow> (Returns (Inl err), tr)
      | Inr arguments \<Rightarrow>
        (case slice_to toolName (Index toolName ''__'') of
           Panics p \<Rightarrow> (Panics p, tr)
         | Returns serverName \<Rightarrow>
           (case slice_from toolName (Index toolName ''__'' + 2) of
              Panics p \<Rightarrow> (Panics p, tr)
            | Returns localName \<Rightarrow>
              (case find (\<lambda>srv. server_Name srv = serverName) (mcpServers m) of
                 None \<Rightarrow> (Returns (Inl UnknownProvider), tr)
               | Some toolServer \<Rightarrow>
                 (let r = CallTool env tr toolServer localName arguments;
                      tr1 = tr @ [ProviderCall toolServer localName arguments r]
                  in case r of
                       Inl err \<Rightarrow> (Returns (Inl (ToolExecutionFailed err)), tr1)
                     | Inr result \<Rightarrow>
                       (case MarshalString env result of
                          Inl err \<Rightarrow> (Returns (Inl (MarshalFailed err)), tr1)
                        | Inr marshaledResult \<Rightarrow> (Returns (Inr marshaledResult), tr1)))))))"

section \<open>Response classifier: the streaming function of the first LLM call\<close>

text \<open>
  \<open>json.Unmarshal\<close> into a \<open>[]interface{}\<close> and into a \<open>map[string]interface{}\<close>.
  \<open>Some v\<close> is \<open>err == nil\<close>, with \<open>v\<close> the variable's value after the call. The decoder
  accepts the JSON of the variable's own kind and \<open>null\<close>, which leaves the variable \<open>nil\<close>
  (of length 0, with no key); any other JSON value is a type error, any other text a
  syntax error.
\<close>

definition Unmarshal_slice :: "env \<Rightarrow> string \<Rightarrow> json list option" where
  "Unmarshal_slice env chunk =
     (case Unmarshal env chunk of
        Inr (JArray xs) \<Rightarrow> Some xs
      | Inr JNull \<Rightarrow> Some []
      | _ \<Rightarrow> None)"

definition Unmarshal_map :: "env \<Rightarrow> string \<Rightarrow> (string \<times> json) list option" where
  "Unmarshal_map env chunk =
     (case Unmarshal env chunk of
        Inr (JObject kvs) \<Rightarrow> Some kvs
      | Inr JNull \<Rightarrow> Some []
      | _ \<Rightarrow> None)"

text \<open>
  The type assertions \<open>v.([]interface{})\<close> and \<open>v.(map[string]interface{})\<close> in their
  two-result form, on the result of a map lookup (\<open>None\<close> is the missing key, \<open>nil\<close>).
\<close>

fun as_slice :: "json option \<Rightarrow> json list option" where
  "as_slice (Some (JArray xs)) = Some xs"
| "as_slice _ = None"

fun as_map :: "json option \<Rightarrow> (string \<times> json) list option" where
  "as_map (Some (JObject kvs)) = Some kvs"
| "as_map _ = None"

text \<open>
  The streaming function passed to the first LLM call. Its result is what it sends on
  \<open>streamingChan\<close> for the fragment: nothing, or the fragment itself. It always returns
  \<open>nil\<close>, so it never stops the generation.
\<close>

definition streamingFunc :: "env \<Rightarrow> string \<Rightarrow> string list" where
  "streamingFunc env chunk =
     (if (case Unmarshal_slice env chunk of
            Some toolCallArray \<Rightarrow> length toolCallArray > 0
          | None \<Rightarrow> False)
      then []
      else if (case Unmarshal_map env chunk of
                 None \<Rightarrow> False
               | Some chunkData \<Rightarrow>
                 (case as_slice (map_of chunkData ''choices'') of
                    None \<Rightarrow> False
                  | Some choices \<Rightarrow>
                    (case choices of
                       [] \<Rightarrow> False
                     | choices0 # _ \<Rightarrow>
                       (case as_map (Some choices0) of
                          None \<Rightarrow> False
                        | Some choice \<Rightarrow>
                          (case as_slice (map_of choice ''tool_calls'') of
                             None \<Rightarrow> False
                           | Some toolCalls \<Rightarrow> length toolCalls > 0)))))
      then []
      else [chunk])"

section \<open>Orchestration loop\<close>

text \<open>The progress markers and the display cap of 1000 bytes.\<close>

abbreviation LF :: char where
  "LF \<equiv> CHR 0x0A"

definition tool_usage :: "string \<Rightarrow> string" where
  "tool_usage name = [LF] @ ''[tool_usage] '' @ name @ [LF]"

definition msgToPrint :: "string \<Rightarrow> string" where
  "msgToPrint toolRes =
     (if length toolRes > 1000 then take 1000 toolRes @ ''...'' else toolRes)"

definition tool_response :: "string \<Rightarrow> string \<Rightarrow> string" where
  "tool_response name toolRes =
     [LF] @ ''[tool_response] '' @ name @ '': '' @ msgToPrint toolRes @ '']'' @ [LF, LF]"

text \<open>The two messages appended after a tool call: the request, then the result.\<close>

definition ai_message :: "ToolCall \<Rightarrow> MessageContent" where
  "ai_message suggestedTool = MessageContent ''ai'' [ToolCallPart suggestedTool]"

definition tool_message :: "ToolCall \<Rightarrow> string \<Rightarrow> MessageContent" where
  "tool_message suggestedTool toolRes =
     MessageContent ''tool'' [ToolCallResponse (ID suggestedTool) toolRes]"

subsection \<open>Blocking mode\<close>

text \<open>
  The loop \<open>for _, suggestedTool := range toolCalls\<close> of \<open>GenerateContent\<close>, on the
  variables it changes: \<open>msgs\<close>, \<open>response\<close> and the trace. An error of \<open>ExecuteTool\<close> is
  \<open>panic(err)\<close>; a panic inside \<open>ExecuteTool\<close> unwinds through the loop.
\<close>

fun for_toolCalls ::
  "env \<Rightarrow> MCPAgent \<Rightarrow> bool \<Rightarrow> ToolCall list \<Rightarrow> MessageContent list \<Rightarrow> string \<Rightarrow> event list \<Rightarrow>
     (MessageContent list \<times> string) outcome \<times> event list" where
  "for_toolCalls env m addNotFinalResponses [] msgs response tr = (Returns (msgs, response), tr)"
| "for_toolCalls env m addNotFinalResponses (suggestedTool # rest) msgs response tr =
     (let response1 =
            (if addNotFinalResponses
             then response @ tool_usage (FunctionCall_Name suggestedTool) else response);
          (r, tr1) = ExecuteTool env m tr (FunctionCall_Name suggestedTool)
                       (FunctionCall_Arguments suggestedTool);
          tr2 = tr1 @ [Executed (FunctionCall_Name suggestedTool)
                         (FunctionCall_Arguments suggestedTool) r]
      in case r of
           Panics p \<Rightarrow> (Panics p, tr2)
         | Returns (Inl err) \<Rightarrow> (Panics (PanicError err), tr2)
         | Returns (Inr toolRes) \<Rightarrow>
             for_toolCalls env m addNotFinalResponses rest
               (msgs @ [ai_message suggestedTool, tool_message suggestedTool toolRes])
               (if addNotFinalResponses
                then response1 @ tool_response (FunctionCall_Name suggestedTool) toolRes
                else response1)
               tr2)"

text \<open>
  \<open>GenerateContent(ctx, prompt, addNotFinalResponses)\<close>. An error of either LLM call is
  \<open>panic(err)\<close>; \<open>resp.Choices[0]\<close> panics on a response with no choice.
\<close>

definition GenerateContent ::
  "env \<Rightarrow> MCPAgent \<Rightarrow> string \<Rightarrow> bool \<Rightarrow> string outcome \<times> event list" where
  "GenerateContent env m prompt addNotFinalResponses =
     (let msgs = [MessageContent ''human'' [TextContent prompt]];
          tools = ExtractToolsFromAgent m;
          g = LLMModel env [] msgs tools;
          tr = [LLMCall msgs (Result g)]
      in case Result g of
           Inl err \<Rightarrow> (Panics (PanicError (GenerationFailed err)), tr)
         | Inr resp \<Rightarrow>
           (case Choices resp of
              [] \<Rightarrow> (Panics IndexOutOfRange, tr)
            | choice # _ \<Rightarrow>
              (let toolCalls = ToolCalls choice in
               if length toolCalls > 0 then
                 (case for_toolCalls env m addNotFinalResponses toolCalls msgs [] tr of
                    (Panics p, tr1) \<Rightarrow> (Panics p, tr1)
                  | (Returns (msgs1, response), tr1) \<Rightarrow>
                    (let g2 = LLMModel env tr1 msgs1 tools;
                         tr2 = tr1 @ [LLMCall msgs1 (Result g2)]
                     in case Result g2 of
                          Inl err \<Rightarrow> (Panics (PanicError (GenerationFailed err)), tr2)
                        | Inr resp2 \<Rightarrow>
                          (case Choices resp2 of
                             [] \<Rightarrow> (Panics IndexOutOfRange, tr2)
                           | choice2 # _ \<Rightarrow> (Returns (response @ Content choice2), tr2))))
               else (Returns ([] @ Content choice), tr))))"

text \<open>
  The first version of the blocking mode, \<open>GenerateContent(ctx, prompt)\<close> of
  \<open>agent/agent.go\<close>: no progress markers, and \<open>response\<close> is assigned once. (It also
  prints the name of each suggested tool on the standard output, which is not modelled.)
\<close>

fun agent_for_toolCalls ::
  "env \<Rightarrow> MCPAgent \<Rightarrow> ToolCall list \<Rightarrow> MessageContent list \<Rightarrow> event list \<Rightarrow>
     (MessageContent list) outcome \<times> event list" where
  "agent_for_toolCalls env m [] msgs tr = (Returns msgs, tr)"
| "agent_for_toolCalls env m (suggestedTool # rest) msgs tr =
     (let (r, tr1) = ExecuteTool env m tr (FunctionCall_Name suggestedTool)
                       (FunctionCall_Arguments suggestedTool);
          tr2 = tr1 @ [Executed (FunctionCall_Name suggestedTool)
                         (FunctionCall_Arguments suggestedTool) r]
      in case r of
           Panics p \<Rightarrow> (Panics p, tr2)
         | Returns (Inl err) \<Rightarrow> (Panics (PanicError err), tr2)
         | Returns (Inr toolRes) \<Rightarrow>
             agent_for_toolCalls env m rest
               (msgs @ [ai_message suggestedTool, tool_message suggestedTool toolRes]) tr2)"

definition agent_GenerateContent ::
  "env \<Rightarrow> MCPAgent \<Rightarrow> string \<Rightarrow> string outcome \<times> event list" where
  "agent_GenerateContent env m prompt =
     (let msgs = [MessageContent ''human'' [TextContent prompt]];
          tools = ExtractToolsFromAgent m;
          g = LLMModel env [] msgs tools;
          tr = [LLMCall msgs (Result g)]
      in case Result g of
           Inl err \<Rightarrow> (Panics (PanicError (GenerationFailed err)), tr)
         | Inr resp \<Rightarrow>
           (case Choices resp of
              [] \<Rightarrow> (Panics IndexOutOfRange, tr)
            | choice # _ \<Rightarrow>
              (let toolCalls = ToolCalls choice in
               if length toolCalls > 0 then
                 (case agent_for_toolCalls env m toolCalls msgs tr of
                    (Panics p, tr1) \<Rightarrow> (Panics p, tr1)
                  | (Returns msgs1, tr1) \<Rightarrow>
                    (let g2 = LLMModel env tr1 msgs1 tools;
                         tr2 = tr1 @ [LLMCall msgs1 (Result g2)]
                     in case Result g2 of
                          Inl err \<Rightarrow> (Panics (PanicError (GenerationFailed err)), tr2)
                        | Inr resp2 \<Rightarrow>
                          (case Choices resp2 of
                             [] \<Rightarrow> (Panics IndexOutOfRange, tr2)
                           | choice2 # _ \<Rightarrow> (Returns (Content choice2), tr2))))
               else (Returns (Content choice), tr))))"

subsection \<open>Streaming mode\<close>

text \<open>
  \<open>GenerateContentAsStreaming\<close> returns the channel at once and does its work in a
  goroutine, which sends on the unbuffered \<open>streamingChan\<close> and closes it when it ends. The
  model runs the goroutine to its end against a caller that receives everything: the
  result is the sequence of strings sent before the close, how the goroutine ended, and
  the trace.

  The loop over the tool calls, on \<open>msgs\<close>, the channel and the trace. \<open>Returns True\<close>: the
  loop is through; \<open>Returns False\<close>: the goroutine has sent the error and returned.
\<close>

fun stream_toolCalls ::
  "env \<Rightarrow> MCPAgent \<Rightarrow> bool \<Rightarrow> ToolCall list \<Rightarrow> MessageContent list \<Rightarrow> string list \<Rightarrow>
     event list \<Rightarrow> bool outcome \<times> MessageContent list \<times> string list \<times> event list" where
  "stream_toolCalls env m addNotFinalResponses [] msgs chan tr = (Returns True, msgs, chan, tr)"
| "stream_toolCalls env m addNotFinalResponses (suggestedTool # rest) msgs chan tr =
     (let chan1 =
            (if addNotFinalResponses
             then chan @ [tool_usage (FunctionCall_Name suggestedTool)] else chan);
          (r, tr1) = ExecuteTool env m tr (FunctionCall_Name suggestedTool)
                       (FunctionCall_Arguments suggestedTool);
          tr2 = tr1 @ [Executed (FunctionCall_Name suggestedTool)
                         (FunctionCall_Arguments suggestedTool) r]
      in case r of
           Panics p \<Rightarrow> (Panics p, msgs, chan1, tr2)
         | Returns (Inl err) \<Rightarrow>
             (Returns False, msgs, chan1 @ [''Error executing tool: '' @ Error env err], tr2)
         | Returns (Inr toolRes) \<Rightarrow>
             stream_toolCalls env m addNotFinalResponses rest
               (msgs @ [ai_message suggestedTool, tool_message suggestedTool toolRes])
               (if addNotFinalResponses
                then chan1 @ [tool_response (FunctionCall_Name suggestedTool) toolRes]
                else chan1)
               tr2)"

text \<open>
  The goroutine. The streaming function of the first LLM call is \<open>streamingFunc\<close>; the one
  of the final call sends every fragment. Here a response with no choice is not an
  error: the guard \<open>len(resp.Choices) > 0\<close> skips the tool handling.
\<close>

definition GenerateContentAsStreaming ::
  "env \<Rightarrow> MCPAgent \<Rightarrow> string \<Rightarrow> bool \<Rightarrow> unit outcome \<times> string list \<times> event list" where
  "GenerateContentAsStreaming env m prompt addNotFinalResponses =
     (let msgs = [MessageContent ''human'' [TextContent prompt]];
          tools = ExtractToolsFromAgent m;
          g = LLMModel env [] msgs tools;
          chan = concat (map (streamingFunc env) (Chunks g));
          tr = [LLMCall msgs (Result g)]
      in case Result g of
           Inl err \<Rightarrow> (Returns (), chan @ [''Error generating content: '' @ err], tr)
         | Inr resp \<Rightarrow>
           (case Choices resp of
              [] \<Rightarrow> (Returns (), chan, tr)
            | choice # _ \<Rightarrow>
              if length (ToolCalls choice) > 0 then
                (case stream_toolCalls env m addNotFinalResponses (ToolCalls choice) msgs chan tr of
                   (Panics p, msgs1, chan1, tr1) \<Rightarrow> (Panics p, chan1, tr1)
                 | (Returns False, msgs1, chan1, tr1) \<Rightarrow> (Returns (), chan1, tr1)
                 | (Returns True, msgs1, chan1, tr1) \<Rightarrow>
                   (let g2 = LLMModel env tr1 msgs1 tools;
                        chan2 = chan1 @ Chunks g2;
                        tr2 = tr1 @ [LLMCall msgs1 (Result g2)]
                    in case Result g2 of
                         Inl err \<Rightarrow>
                           (Returns (), chan2 @ [''Error generating final content: '' @ err], tr2)
                       | Inr finalResp \<Rightarrow> (Returns (), chan2, tr2)))
              else (Returns (), chan, tr)))"

subsection \<open>The entry points that take and return the conversation\<close>



section \<open>Reading a trace\<close>

text \<open>
  What the theorems read off a trace: the conversations handed to the LLM, the tool
  executions (name and arguments, as the LLM gave them), the provider contacts, the
  results of the tool executions that succeeded, and the errors.
\<close>

fun llm_msgs :: "event \<Rightarrow> MessageContent list list" where
  "llm_msgs (LLMCall msgs r) = [msgs]"
| "llm_msgs _ = []"

definition llm_calls :: "event list \<Rightarrow> MessageContent list list" where
  "llm_calls tr = concat (map llm_msgs tr)"

fun execution :: "event \<Rightarrow> (string \<times> string) list" where
  "execution (Executed name arguments r) = [(name, arguments)]"
| "execution _ = []"

definition executions :: "event list \<Rightarrow> (string \<times> string) list" where
  "executions tr = concat (map execution tr)"

fun provider_call :: "event \<Rightarrow> (MCPServer \<times> string \<times> string option) list" where
  "provider_call (ProviderCall srv name arguments r) = [(srv, name, arguments)]"
| "provider_call _ = []"

definition provider_calls :: "event list \<Rightarrow> (MCPServer \<times> string \<times> string option) list" where
  "provider_calls tr = concat (map provider_call tr)"

fun tool_result :: "event \<Rightarrow> string list" where
  "tool_result (Executed name arguments (Returns (Inr toolRes))) = [toolRes]"
| "tool_result _ = []"

definition tool_results :: "event list \<Rightarrow> string list" where
  "tool_results tr = concat (map tool_result tr)"

text \<open>
  The error of an event, if it is one of the four kinds of the specification's taxonomy
  (or a failure to marshal): a failed LLM call, a tool execution that returned an error.
\<close>

fun event_error :: "event \<Rightarrow> error option" where
  "event_error (LLMCall msgs (Inl err)) = Some (GenerationFailed err)"
| "event_error (Executed name arguments (Returns (Inl err))) = Some err"
| "event_error _ = None"

fun error_of :: "event \<Rightarrow> error list" where
  "error_of ev = (case event_error ev of None \<Rightarrow> [] | Some err \<Rightarrow> [err])"

definition errors :: "event list \<Rightarrow> error list" where
  "errors tr = concat (map error_of tr)"

text \<open>A tool execution that did not return a result: it returned an error, or panicked.\<close>

fun execution_failed :: "event \<Rightarrow> bool" where
  "execution_failed (Executed name arguments (Returns (Inr toolRes))) = False"
| "execution_failed (Executed name arguments r) = True"
| "execution_failed _ = False"

definition call_key :: "ToolCall \<Rightarrow> string \<times> string" where
  "call_key suggestedTool =
     (FunctionCall_Name suggestedTool, FunctionCall_Arguments suggestedTool)"

definition tool_messages :: "ToolCall \<Rightarrow> string \<Rightarrow> MessageContent list" where
  "tool_messages suggestedTool toolRes =
     [ai_message suggestedTool, tool_message suggestedTool toolRes]"

text \<open>The progress markers of one tool call, as both modes write them when enabled.\<close>

definition markers :: "ToolCall \<Rightarrow> string \<Rightarrow> string list" where
  "markers suggestedTool toolRes =
     [tool_usage (FunctionCall_Name suggestedTool),
      tool_response (FunctionCall_Name suggestedTool) toolRes]"

text \<open>The human message a turn starts from, and the tool calls of the first response.\<close>

definition human :: "string \<Rightarrow> MessageContent list" where
  "human prompt = [MessageContent ''human'' [TextContent prompt]]"

definition first_response :: "env \<Rightarrow> MCPAgent \<Rightarrow> MessageContent list \<Rightarrow> string + ContentResponse" where
  "first_response env m msgs = Result (LLMModel env [] msgs (ExtractToolsFromAgent m))"

definition first_toolCalls :: "env \<Rightarrow> MCPAgent \<Rightarrow> MessageContent list \<Rightarrow> ToolCall list" where
  "first_toolCalls env m msgs =
     (case first_response env m msgs of
        Inl err \<Rightarrow> []
      | Inr resp \<Rightarrow> (case Choices resp of [] \<Rightarrow> [] | choice # _ \<Rightarrow> ToolCalls choice))"

section \<open>The classifier as the specification words it\<close>

text \<open>
  Section 4.3: a fragment is suppressed if it parses as a JSON array with at least one
  element, or as a JSON object containing a \<open>choices\<close> list whose first element has a
  non-empty \<open>tool_calls\<close> list.
\<close>

fun nonempty_array :: "json \<Rightarrow> bool" where
  "nonempty_array (JArray (x # xs)) = True"
| "nonempty_array _ = False"

fun field :: "string \<Rightarrow> json \<Rightarrow> json option" where
  "field k (JObject kvs) = map_of kvs k"
| "field k _ = None"

fun first_element :: "json \<Rightarrow> json option" where
  "first_element (JArray (x # xs)) = Some x"
| "first_element _ = None"

definition has_tool_calls :: "json \<Rightarrow> bool" where
  "has_tool_calls v =
     (case Option.bind (Option.bind (field ''choices'' v) first_element) (field ''tool_calls'') of
        None \<Rightarrow> False
      | Some toolCalls \<Rightarrow> nonempty_array toolCalls)"

definition suppressed :: "env \<Rightarrow> string \<Rightarrow> bool" where
  "suppressed env chunk =
     (case Unmarshal env chunk of
        Inl err \<Rightarrow> False
      | Inr v \<Rightarrow> nonempty_array v \<or> has_tool_calls v)"

section \<open>Example collaborators\<close>

text \<open>
  A calculator provider \<open>calc\<close> with the tool \<open>add\<close>, and an agent allowed to use it. The
  example decoder gives what \<open>encoding/json\<close> gives on the texts the examples use.
\<close>

definition calc_agent :: MCPAgent where
  "calc_agent =
     \<lparr>agent_Name = ''my-agent'',
      MCPServerTools = [(''calc'', [Tool ''add'' ''adds two numbers'' ''object'' ''a, b''])],
      mcpServers = [MCPServer ''calc'' 0],
      Provider = ''my-provider''\<rparr>"

definition example_Unmarshal :: "string \<Rightarrow> string + json" where
  \<open>example_Unmarshal s =
     (if s = ''{"a":2,"b":2}'' then Inr (JObject [(''a'', JNumber ''2''), (''b'', JNumber ''2'')])
      else if s = ''["tool_call_delta"]'' then Inr (JArray [JString ''tool_call_delta''])
      else if s = ''{"choices":[{"tool_calls":[{"id":"call_1"}]}]}''
        then Inr (JObject [(''choices'',
               JArray [JObject [(''tool_calls'', JArray [JObject [(''id'', JString ''call_1'')]])]])])
      else if s = ''{"choices":[{"content":"Hi"}]}''
        then Inr (JObject [(''choices'', JArray [JObject [(''content'', JString ''Hi'')]])])
      else if s = ''[]'' then Inr (JArray [])
      else if s = ''null'' then Inr JNull
      else Inl ''invalid character'')\<close>

definition example_CallTool ::
  "event list \<Rightarrow> MCPServer \<Rightarrow> string \<Rightarrow> string option \<Rightarrow> string + CallToolResult" where
  "example_CallTool tr srv name arguments =
     (if name = ''add'' then Inr (CallToolResult False [''4''])
      else if name = ''big'' then Inr (CallToolResult False [replicate 1001 (CHR ''x'')])
      else if name = ''crash'' then Inl ''connection reset''
      else Inr (CallToolResult True [''unknown tool'']))"

definition example_env :: "Generation \<Rightarrow> Generation \<Rightarrow> env" where
  "example_env first final =
     \<lparr>LLMModel = (\<lambda>tr msgs tools. if tr = [] then first else final),
      CallTool = example_CallTool,
      MarshalString = (\<lambda>result. Inr (concat (result_Content result))),
      Unmarshal = example_Unmarshal,
      ErrNotFound = ''given element is not found''\<rparr>"

definition add_call :: ToolCall where
  \<open>add_call = ToolCall ''call_1'' ''calc__add'' ''{"a":2,"b":2}''\<close>

definition neg_call :: ToolCall where
  "neg_call = ToolCall ''call_2'' ''calc__neg'' ''{}''"

definition bad_call :: ToolCall where
  "bad_call = ToolCall ''call_3'' ''calc__add'' ''{bad''"

definition underscore_agent :: MCPAgent where
  "underscore_agent =
     \<lparr>agent_Name = ''my-agent'',
      MCPServerTools = [(''a_'', [Tool ''b'' ''a tool'' ''object'' []])],
      mcpServers = [MCPServer ''a_'' 0],
      Provider = ''my-provider''\<rparr>"

definition big_call :: ToolCall where
  "big_call = ToolCall ''call_4'' ''calc__big'' []"

definition requests :: "ToolCall list \<Rightarrow> Generation" where
  \<open>requests toolCalls =
     Generation [''["tool_call_delta"]''] (Inr (ContentResponse [ContentChoice [] toolCalls]))\<close>

definition answers :: "string \<Rightarrow> ToolCall list \<Rightarrow> Generation" where
  "answers text toolCalls =
     Generation [text] (Inr (ContentResponse [ContentChoice text toolCalls]))"

definition fails :: "string \<Rightarrow> Generation" where
  "fails err = Generation [] (Inl err)"

text \<open>
  The turns of the examples. \<open>calc_env\<close>: the first response requests \<open>calc__add\<close> and
  \<open>calc__neg\<close> (a tool the provider does not know: it answers with an error of its own,
  which is a result), the final response answers and requests \<open>calc__add\<close> again.
  \<open>bad_env\<close>: the first of two requests has malformed arguments. \<open>crash_env\<close>: the
  provider's transport fails. \<open>ghost_env\<close>: the request names a provider the agent does
  not have. \<open>plain_env\<close>: the first response requests no tool. \<open>down_env\<close>: the LLM
  fails. \<open>final_down_env\<close>: the final LLM call fails. \<open>big_env\<close>: the tool's result has
  1001 bytes. \<open>leak_env\<close>: the final call streams a fragment that is a JSON array.
\<close>

definition calc_env :: env where
  "calc_env = example_env (requests [add_call, neg_call]) (answers ''The answer is 4.'' [add_call])"

definition bad_env :: env where
  "bad_env = example_env (requests [bad_call, add_call]) (answers ''The answer is 4.'' [])"

definition crash_env :: env where
  "crash_env = example_env (requests [ToolCall ''call_5'' ''calc__crash'' []])
     (answers ''The answer is 4.'' [])"

definition ghost_env :: env where
  "ghost_env = example_env (requests [ToolCall ''call_6'' ''ghost__add'' []])
     (answers ''The answer is 4.'' [])"

definition plain_env :: env where
  "plain_env = example_env (answers ''Hello!'' []) (fails ''not called'')"

definition down_env :: env where
  "down_env = example_env (fails ''connection refused'') (fails ''connection refused'')"

definition final_down_env :: env where
  "final_down_env = example_env (requests [add_call]) (fails ''connection refused'')"

definition big_env :: env where
  "big_env = example_env (requests [big_call]) (answers ''Done.'' [])"

definition leak_env :: env where
  \<open>leak_env = example_env (requests [add_call])
     (Generation [''["tool_call_delta"]'', ''4''] (Inr (ContentResponse [ContentChoice ''4'' []])))\<close>

section \<open>\<open>strings.Index\<close> and the separator\<close>

lemma Index_ge: "-1 \<le> Index s sub"
  by (induction s) (auto simp: Let_def)

lemma take_eq_prefix: "take (length sub) xs = sub \<longleftrightarrow> prefix sub xs"
  by (metis append_eq_conv_conj prefix_def)

lemma Index_neg_iff: "Index s sub < 0 \<longleftrightarrow> \<not> sublist sub s"
proof (induction s)
  case Nil
  then show ?case by simp
next
  case (Cons c cs)
  show ?case
  proof (cases "take (length sub) (c # cs) = sub")
    case True
    then have "prefix sub (c # cs)" using take_eq_prefix by blast
    then have sl: "sublist sub (c # cs)" by (rule prefix_imp_sublist)
    have "Index (c # cs) sub = 0"
      by (subst Index.simps, subst if_P, rule True, rule refl)
    then have "\<not> Index (c # cs) sub < 0" by linarith
    with sl show ?thesis by blast
  next
    case False
    then have np: "\<not> prefix sub (c # cs)" using take_eq_prefix by blast
    have "Index (c # cs) sub = (let i = Index cs sub in if i < 0 then -1 else i + 1)"
      by (subst Index.simps, subst if_not_P, rule False, rule refl)
    then have "Index (c # cs) sub < 0 \<longleftrightarrow> Index cs sub < 0"
      using Index_ge [of cs sub] by (auto simp: Let_def)
    also have "\<dots> \<longleftrightarrow> \<not> sublist sub cs" by (rule Cons.IH)
    also have "\<dots> \<longleftrightarrow> \<not> sublist sub (c # cs)"
      using np by (simp add: sublist_Cons_right)
    finally show ?thesis .
  qed
qed

lemma Index_absent: "\<not> sublist sub s \<Longrightarrow> Index s sub = -1"
  using Index_neg_iff [of s sub] Index_ge [of s sub] by linarith

lemma Index_bound: "0 \<le> Index s sub \<Longrightarrow> Index s sub + int (length sub) \<le> int (length s)"
proof (induction s)
  case Nil
  then show ?case by (simp split: if_splits)
next
  case (Cons c cs)
  show ?case
  proof (cases "take (length sub) (c # cs) = sub")
    case True
    have i0: "Index (c # cs) sub = 0"
      by (subst Index.simps, subst if_P, rule True, rule refl)
    have "length (take (length sub) (c # cs)) = length sub"
      by (subst True, rule refl)
    then have "length sub \<le> length (c # cs)" by (simp only: length_take min_def split: if_splits)
    with i0 show ?thesis by linarith
  next
    case False
    have eq: "Index (c # cs) sub = (let i = Index cs sub in if i < 0 then -1 else i + 1)"
      by (subst Index.simps, subst if_not_P, rule False, rule refl)
    with Cons.prems have nn: "0 \<le> Index cs sub" by (auto simp: Let_def split: if_splits)
    with eq have "Index (c # cs) sub = Index cs sub + 1" by (simp add: Let_def)
    with Cons.IH [OF nn] show ?thesis by simp
  qed
qed

lemma Index_separator:
  "\<not> sublist ''__'' (P @ ''_'') \<Longrightarrow> Index (P @ ''__'' @ T) ''__'' = int (length P)"
proof (induction P)
  case Nil
  then show ?case by simp
next
  case (Cons c P)
  have rest: "\<not> sublist ''__'' (P @ ''_'')"
    using Cons.prems by (simp add: sublist_Cons_right)
  have "\<not> prefix ''__'' ((c # P) @ ''_'')"
    using Cons.prems prefix_imp_sublist by blast
  then have "take 2 (c # P @ ''__'' @ T) \<noteq> ''__''"
    by (cases P) auto
  then show ?case using Cons.IH [OF rest] by (simp add: Let_def)
qed

section \<open>A tool name without the separator\<close>

text \<open>
  Claim C10. For a tool name that contains no \<open>__\<close>, \<open>strings.Index\<close> is \<open>-1\<close> and the
  first slice expression, \<open>toolName[:-1]\<close>, panics. So \<open>ExecuteTool\<close>, once the arguments
  have passed their check, panics with a slice bound out of range: it returns no error, in
  particular not that of an unknown provider, it looks no server up (the result does not
  depend on the agent) and it contacts no provider (the trace is unchanged). Only
  arguments that fail their check are answered first, with their own error.
\<close>

theorem ExecuteTool_without_separator:
  assumes "\<not> sublist ''__'' toolName"
  shows "Index toolName ''__'' = -1 \<and>
         slice_to toolName (Index toolName ''__'') = Panics SliceBoundsOutOfRange \<and>
         ExecuteTool env m tr toolName argumentsInJSON =
           (if argumentsInJSON \<noteq> [] \<and> argumentsInJSON \<noteq> ''{}'' \<and> isl (Unmarshal env argumentsInJSON)
            then (Returns (Inl (InvalidArguments (projl (Unmarshal env argumentsInJSON)))), tr)
            else (Panics SliceBoundsOutOfRange, tr))"
proof -
  have i: "Index toolName ''__'' = -1" using assms by (rule Index_absent)
  then have s: "slice_to toolName (Index toolName ''__'') = Panics SliceBoundsOutOfRange"
    by (simp add: slice_to_def)
  have "ExecuteTool env m tr toolName argumentsInJSON =
           (if argumentsInJSON \<noteq> [] \<and> argumentsInJSON \<noteq> ''{}'' \<and> isl (Unmarshal env argumentsInJSON)
            then (Returns (Inl (InvalidArguments (projl (Unmarshal env argumentsInJSON)))), tr)
            else (Panics SliceBoundsOutOfRange, tr))"
    unfolding ExecuteTool_def s by (auto split: sum.splits)
  with i s show ?thesis by blast
qed

theorem ExecuteTool_without_separator_witness:
  "\<not> sublist ''__'' ''add'' \<and>
   ExecuteTool (example_env (requests []) (answers [] [])) calc_agent [] ''add'' ''{}'' =
     (Panics SliceBoundsOutOfRange, []) \<and>
   ExecuteTool (example_env (requests []) (answers [] [])) calc_agent [] ''add'' ''{bad'' =
     (Returns (Inl (InvalidArguments ''invalid character'')), [])"
proof -
  have h: "\<not> sublist ''__'' ''add''" by (simp add: sublist_Cons_right)
  show ?thesis
    using h ExecuteTool_without_separator [OF h, of "example_env (requests []) (answers [] [])" calc_agent "[]" "''{}''"]
      ExecuteTool_without_separator [OF h, of "example_env (requests []) (answers [] [])" calc_agent "[]" "''{bad''"]
    by (simp add: example_env_def example_Unmarshal_def)
qed

section \<open>Namespacing\<close>

lemma sublist_separator_snoc:
  "sublist ''__'' (P @ ''_'') \<longleftrightarrow> sublist ''__'' P \<or> suffix ''_'' P"
proof (induction P)
  case Nil
  then show ?case by (simp add: sublist_Cons_right)
next
  case (Cons c P)
  show ?case
  proof (cases P)
    case Nil
    then show ?thesis by (auto simp: sublist_Cons_right suffix_Cons)
  next
    case (Cons d Q)
    with Cons.IH show ?thesis by (auto simp: sublist_Cons_right suffix_Cons)
  qed
qed

lemma slices_separator:
  assumes "\<not> sublist ''__'' (P @ ''_'')"
  shows "slice_to (P @ ''__'' @ T) (Index (P @ ''__'' @ T) ''__'') = Returns P"
    and "slice_from (P @ ''__'' @ T) (Index (P @ ''__'' @ T) ''__'' + 2) = Returns T"
proof -
  note i = Index_separator [OF assms, of T]
  have n: "nat (int (length P) + 2) = length P + 2" by simp
  show "slice_to (P @ ''__'' @ T) (Index (P @ ''__'' @ T) ''__'') = Returns P"
    unfolding i slice_to_def by simp
  show "slice_from (P @ ''__'' @ T) (Index (P @ ''__'' @ T) ''__'' + 2) = Returns T"
    unfolding i slice_from_def n by simp
qed

lemma ExtractToolsFromAgent_names:
  "Function_Name ` set (ExtractToolsFromAgent m) =
     {P @ ''__'' @ tool_Name agT | P agTs agT. (P, agTs) \<in> set (MCPServerTools m) \<and> agT \<in> set agTs}"
  unfolding ExtractToolsFromAgent_def by (auto simp: image_iff) force+

text \<open>
  Claim C5, amended. The catalog composes the name of a tool as \<open>P + "__" + T\<close>, and
  \<open>ExecuteTool\<close> splits a name at the first \<open>__\<close>. The split gives back \<open>(P, T)\<close> when the
  provider name \<open>P\<close> neither contains \<open>__\<close> nor ends in \<open>_\<close>, for every local name \<open>T\<close>,
  so in particular for those without the separator. Then every name the catalog composes for \<open>P\<close> resolves to \<open>P\<close>:
  \<open>ExecuteTool\<close> contacts the first server named \<open>P\<close>, with \<open>T\<close> as the tool's name,
  unmodified.
\<close>

theorem namespacing_round_trip:
  assumes "\<not> sublist ''__'' P" and "\<not> suffix ''_'' P"
  shows "slice_to (P @ ''__'' @ T) (Index (P @ ''__'' @ T) ''__'') = Returns P \<and>
         slice_from (P @ ''__'' @ T) (Index (P @ ''__'' @ T) ''__'' + 2) = Returns T \<and>
         ((P, agTs) \<in> set (MCPServerTools m) \<and> agT \<in> set agTs \<and> T = tool_Name agT \<longrightarrow>
            P @ ''__'' @ T \<in> Function_Name ` set (ExtractToolsFromAgent m)) \<and>
         (find (\<lambda>srv. server_Name srv = P) (mcpServers m) = Some toolServer \<and>
          (argumentsInJSON = [] \<or> argumentsInJSON = ''{}'') \<longrightarrow>
            snd (ExecuteTool env m tr (P @ ''__'' @ T) argumentsInJSON) =
              tr @ [ProviderCall toolServer T None (CallTool env tr toolServer T None)]) \<and>
         (find (\<lambda>srv. server_Name srv = P) (mcpServers m) = Some toolServer \<and>
          argumentsInJSON \<noteq> [] \<and> argumentsInJSON \<noteq> ''{}'' \<and> \<not> isl (Unmarshal env argumentsInJSON) \<longrightarrow>
            snd (ExecuteTool env m tr (P @ ''__'' @ T) argumentsInJSON) =
              tr @ [ProviderCall toolServer T (Some argumentsInJSON)
                      (CallTool env tr toolServer T (Some argumentsInJSON))])"
proof -
  from assms have "\<not> sublist ''__'' (P @ ''_'')" by (simp add: sublist_separator_snoc)
  note s = slices_separator [OF this, of T]
  have c: "(P, agTs) \<in> set (MCPServerTools m) \<and> agT \<in> set agTs \<and> T = tool_Name agT \<longrightarrow>
            P @ ''__'' @ T \<in> Function_Name ` set (ExtractToolsFromAgent m)"
    unfolding ExtractToolsFromAgent_names by blast
  have d: "find (\<lambda>srv. server_Name srv = P) (mcpServers m) = Some toolServer \<and>
          (argumentsInJSON = [] \<or> argumentsInJSON = ''{}'') \<longrightarrow>
            snd (ExecuteTool env m tr (P @ ''__'' @ T) argumentsInJSON) =
              tr @ [ProviderCall toolServer T None (CallTool env tr toolServer T None)]"
    unfolding ExecuteTool_def s by (auto simp: Let_def split: sum.splits)
  have e: "find (\<lambda>srv. server_Name srv = P) (mcpServers m) = Some toolServer \<and>
          argumentsInJSON \<noteq> [] \<and> argumentsInJSON \<noteq> ''{}'' \<and> \<not> isl (Unmarshal env argumentsInJSON) \<longrightarrow>
            snd (ExecuteTool env m tr (P @ ''__'' @ T) argumentsInJSON) =
              tr @ [ProviderCall toolServer T (Some argumentsInJSON)
                      (CallTool env tr toolServer T (Some argumentsInJSON))]"
    unfolding ExecuteTool_def s by (auto simp: Let_def split: sum.splits)
  from s c d e show ?thesis by blast
qed

theorem namespacing_round_trip_witness:
  \<open>\<not> sublist ''__'' ''calc'' \<and> \<not> suffix ''_'' ''calc'' \<and>
   slice_to ''calc__add'' (Index ''calc__add'' ''__'') = Returns ''calc'' \<and>
   slice_from ''calc__add'' (Index ''calc__add'' ''__'' + 2) = Returns ''add'' \<and>
   ''calc__add'' \<in> Function_Name ` set (ExtractToolsFromAgent calc_agent) \<and>
   snd (ExecuteTool (example_env (requests []) (answers [] [])) calc_agent [] ''calc__add'' ''{"a":2,"b":2}'') =
     [ProviderCall (MCPServer ''calc'' 0) ''add'' (Some ''{"a":2,"b":2}'')
        (Inr (CallToolResult False [''4'']))]\<close>
proof -
  have h1: "\<not> sublist ''__'' ''calc''" by (simp add: sublist_Cons_right)
  have h2: "\<not> suffix ''_'' ''calc''" by (simp add: suffix_Cons)
  show ?thesis
    using h1 h2 namespacing_round_trip [OF h1 h2, of "''add''"
        "[Tool ''add'' ''adds two numbers'' ''object'' ''a, b'']" calc_agent
        "Tool ''add'' ''adds two numbers'' ''object'' ''a, b''" "MCPServer ''calc'' 0"
        \<open>''{"a":2,"b":2}''\<close> "example_env (requests []) (answers [] [])" "[]"]
    by (simp add: calc_agent_def example_env_def example_Unmarshal_def example_CallTool_def)
qed

text \<open>
  The claim as stated, for any provider name, fails. For the provider \<open>a_\<close> and the tool
  \<open>b\<close>, neither of which contains the separator, the catalog composes \<open>a___b\<close>; the
  first \<open>__\<close> starts at index 1, the split gives \<open>(a, _b)\<close>, and \<open>ExecuteTool\<close> answers
  that there is no such provider. For the provider \<open>my__calc\<close> and the tool \<open>add\<close>, the
  split gives \<open>(my, calc__add)\<close>.
\<close>

theorem namespacing_counterexample:
  "\<not> sublist ''__'' ''a_'' \<and> \<not> sublist ''__'' ''b'' \<and>
   Function_Name ` set (ExtractToolsFromAgent underscore_agent) = {''a_'' @ ''__'' @ ''b''} \<and>
   slice_to (''a_'' @ ''__'' @ ''b'') (Index (''a_'' @ ''__'' @ ''b'') ''__'') = Returns ''a'' \<and>
   slice_from (''a_'' @ ''__'' @ ''b'') (Index (''a_'' @ ''__'' @ ''b'') ''__'' + 2) = Returns ''_b'' \<and>
   ExecuteTool (example_env (requests []) (answers [] [])) underscore_agent [] (''a_'' @ ''__'' @ ''b'') [] =
     (Returns (Inl UnknownProvider), []) \<and>
   \<not> sublist ''__'' ''add'' \<and>
   slice_to (''my__calc'' @ ''__'' @ ''add'') (Index (''my__calc'' @ ''__'' @ ''add'') ''__'') = Returns ''my'' \<and>
   slice_from (''my__calc'' @ ''__'' @ ''add'') (Index (''my__calc'' @ ''__'' @ ''add'') ''__'' + 2) = Returns ''calc__add''"
  by (simp add: sublist_Cons_right slice_to_def slice_from_def ExtractToolsFromAgent_def
      underscore_agent_def ExecuteTool_def)

section \<open>The arguments of a tool call\<close>

text \<open>
  Claim C4. When the arguments string is empty or is \<open>{}\<close>, \<open>ExecuteTool\<close> passes \<open>nil\<close>
  as the arguments: every provider contact it makes carries no arguments, and when the
  tool name resolves (it holds a \<open>__\<close>, and the agent has a server named by the part before
  it) the contact is made, once, with the local name and \<open>nil\<close>. Any other arguments string
  that is not valid JSON makes \<open>ExecuteTool\<close> return the error of invalid arguments with
  the trace unchanged: no provider is contacted.
\<close>

theorem ExecuteTool_arguments:
  "(argumentsInJSON = [] \<or> argumentsInJSON = ''{}'' \<longrightarrow>
      (\<forall>call \<in> set (provider_calls (drop (length tr)
           (snd (ExecuteTool env m tr toolName argumentsInJSON)))). snd (snd call) = None) \<and>
      (0 \<le> Index toolName ''__'' \<and>
       find (\<lambda>srv. server_Name srv = take (nat (Index toolName ''__'')) toolName) (mcpServers m) =
         Some toolServer \<longrightarrow>
         provider_calls (drop (length tr) (snd (ExecuteTool env m tr toolName argumentsInJSON))) =
           [(toolServer, drop (nat (Index toolName ''__'' + 2)) toolName, None)])) \<and>
   (argumentsInJSON \<noteq> [] \<and> argumentsInJSON \<noteq> ''{}'' \<and> Unmarshal env argumentsInJSON = Inl err \<longrightarrow>
      ExecuteTool env m tr toolName argumentsInJSON = (Returns (Inl (InvalidArguments err)), tr))"
proof -
  have none: "\<forall>call \<in> set (provider_calls (drop (length tr)
           (snd (ExecuteTool env m tr toolName argumentsInJSON)))). snd (snd call) = None"
    if "argumentsInJSON = [] \<or> argumentsInJSON = ''{}''"
    using that unfolding ExecuteTool_def provider_calls_def
    by (auto simp: Let_def split: sum.splits outcome.splits option.splits)
  have one: "provider_calls (drop (length tr) (snd (ExecuteTool env m tr toolName argumentsInJSON))) =
           [(toolServer, drop (nat (Index toolName ''__'' + 2)) toolName, None)]"
    if a: "argumentsInJSON = [] \<or> argumentsInJSON = ''{}''" and i: "0 \<le> Index toolName ''__''"
      and f: "find (\<lambda>srv. server_Name srv = take (nat (Index toolName ''__'')) toolName) (mcpServers m) =
         Some toolServer"
  proof -
    have b: "Index toolName ''__'' + 2 \<le> int (length toolName)"
      using Index_bound [OF i] by simp
    have s1: "slice_to toolName (Index toolName ''__'') = Returns (take (nat (Index toolName ''__'')) toolName)"
      using i b by (simp add: slice_to_def)
    have s2: "slice_from toolName (Index toolName ''__'' + 2) =
        Returns (drop (nat (Index toolName ''__'' + 2)) toolName)"
      using i b by (simp add: slice_from_def)
    show ?thesis
      using a f unfolding ExecuteTool_def provider_calls_def s1 s2
      by (auto simp: Let_def split: sum.splits)
  qed
  have invalid: "ExecuteTool env m tr toolName argumentsInJSON = (Returns (Inl (InvalidArguments err)), tr)"
    if "argumentsInJSON \<noteq> [] \<and> argumentsInJSON \<noteq> ''{}'' \<and> Unmarshal env argumentsInJSON = Inl err"
    using that unfolding ExecuteTool_def by simp
  from none one invalid show ?thesis by blast
qed

theorem ExecuteTool_arguments_witness:
  "Index ''calc__add'' ''__'' = 4 \<and>
   find (\<lambda>srv. server_Name srv = ''calc'') (mcpServers calc_agent) = Some (MCPServer ''calc'' 0) \<and>
   provider_calls (snd (ExecuteTool (example_env (requests []) (answers [] [])) calc_agent []
      ''calc__add'' ''{}'')) = [(MCPServer ''calc'' 0, ''add'', None)] \<and>
   provider_calls (snd (ExecuteTool (example_env (requests []) (answers [] [])) calc_agent []
      ''calc__add'' [])) = [(MCPServer ''calc'' 0, ''add'', None)] \<and>
   Unmarshal (example_env (requests []) (answers [] [])) ''{bad'' = Inl ''invalid character'' \<and>
   ExecuteTool (example_env (requests []) (answers [] [])) calc_agent [] ''calc__add'' ''{bad'' =
     (Returns (Inl (InvalidArguments ''invalid character'')), [])"
  using ExecuteTool_arguments [of "''{}''" "[]" "example_env (requests []) (answers [] [])" calc_agent
      "''calc__add''" "MCPServer ''calc'' 0" "''invalid character''"]
    ExecuteTool_arguments [of "[]" "[]" "example_env (requests []) (answers [] [])" calc_agent
      "''calc__add''" "MCPServer ''calc'' 0" "''invalid character''"]
    ExecuteTool_arguments [of "''{bad''" "[]" "example_env (requests []) (answers [] [])" calc_agent
      "''calc__add''" "MCPServer ''calc'' 0" "''invalid character''"]
  by (simp add: calc_agent_def example_env_def example_Unmarshal_def)

section \<open>The loops, step by step\<close>

lemma reads_append [simp]:
  "llm_calls (xs @ ys) = llm_calls xs @ llm_calls ys"
  "executions (xs @ ys) = executions xs @ executions ys"
  "provider_calls (xs @ ys) = provider_calls xs @ provider_calls ys"
  "tool_results (xs @ ys) = tool_results xs @ tool_results ys"
  "errors (xs @ ys) = errors xs @ errors ys"
  by (simp_all add: llm_calls_def executions_def provider_calls_def tool_results_def errors_def)

lemma reads_Nil [simp]:
  "llm_calls [] = []" "executions [] = []" "provider_calls [] = []" "tool_results [] = []"
  "errors [] = []"
  by (simp_all add: llm_calls_def executions_def provider_calls_def tool_results_def errors_def)

lemma reads_Cons [simp]:
  "llm_calls (ev # tr) = llm_msgs ev @ llm_calls tr"
  "executions (ev # tr) = execution ev @ executions tr"
  "provider_calls (ev # tr) = provider_call ev @ provider_calls tr"
  "tool_results (ev # tr) = tool_result ev @ tool_results tr"
  "errors (ev # tr) = error_of ev @ errors tr"
  by (simp_all add: llm_calls_def executions_def provider_calls_def tool_results_def errors_def)

text \<open>One step of each loop: the events of one tool execution.\<close>

lemma step_shape:
  "\<exists>r pc. ExecuteTool env m tr name arguments = (r, tr @ pc) \<and>
      llm_calls pc = [] \<and> executions pc = [] \<and> tool_results pc = [] \<and> errors pc = [] \<and>
      length (provider_calls pc) \<le> 1 \<and>
      (\<forall>toolRes. r = Returns (Inr toolRes) \<longrightarrow> length (provider_calls pc) = 1) \<and>
      (\<forall>p. r = Panics p \<longrightarrow> p = SliceBoundsOutOfRange)"
proof -
  have "\<exists>r pc. ExecuteTool env m tr name arguments = (r, tr @ pc) \<and>
      (pc = [] \<and> (\<forall>toolRes. r \<noteq> Returns (Inr toolRes)) \<or>
       (\<exists>srv l a x. pc = [ProviderCall srv l a x])) \<and>
      (\<forall>p. r = Panics p \<longrightarrow> p = SliceBoundsOutOfRange)"
    unfolding ExecuteTool_def slice_to_def slice_from_def
    by (auto simp: Let_def split: sum.splits option.splits)
  then show ?thesis by auto
qed

lemma for_toolCalls_step:
  "\<exists>r pc. llm_calls pc = [] \<and> executions pc = [] \<and> tool_results pc = [] \<and> errors pc = [] \<and>
     length (provider_calls pc) \<le> 1 \<and>
     (\<forall>toolRes. r = Returns (Inr toolRes) \<longrightarrow> length (provider_calls pc) = 1) \<and>
     (\<forall>p. r = Panics p \<longrightarrow> p = SliceBoundsOutOfRange) \<and>
     for_toolCalls env m flag (t # rest) msgs response tr =
       (case r of
          Panics p \<Rightarrow>
            (Panics p, tr @ pc @ [Executed (FunctionCall_Name t) (FunctionCall_Arguments t) r])
        | Returns (Inl err) \<Rightarrow>
            (Panics (PanicError err),
             tr @ pc @ [Executed (FunctionCall_Name t) (FunctionCall_Arguments t) r])
        | Returns (Inr toolRes) \<Rightarrow>
            for_toolCalls env m flag rest (msgs @ tool_messages t toolRes)
              (response @ (if flag then concat (markers t toolRes) else []))
              (tr @ pc @ [Executed (FunctionCall_Name t) (FunctionCall_Arguments t) r]))"
proof -
  obtain r pc where e: "ExecuteTool env m tr (FunctionCall_Name t) (FunctionCall_Arguments t) = (r, tr @ pc)"
    and pc: "llm_calls pc = []" "executions pc = []" "tool_results pc = []" "errors pc = []"
      "length (provider_calls pc) \<le> 1"
      "\<forall>toolRes. r = Returns (Inr toolRes) \<longrightarrow> length (provider_calls pc) = 1"
      "\<forall>p. r = Panics p \<longrightarrow> p = SliceBoundsOutOfRange"
    using step_shape [of env m tr "FunctionCall_Name t" "FunctionCall_Arguments t"] by blast
  have "for_toolCalls env m flag (t # rest) msgs response tr =
       (case r of
          Panics p \<Rightarrow>
            (Panics p, tr @ pc @ [Executed (FunctionCall_Name t) (FunctionCall_Arguments t) r])
        | Returns (Inl err) \<Rightarrow>
            (Panics (PanicError err),
             tr @ pc @ [Executed (FunctionCall_Name t) (FunctionCall_Arguments t) r])
        | Returns (Inr toolRes) \<Rightarrow>
            for_toolCalls env m flag rest (msgs @ tool_messages t toolRes)
              (response @ (if flag then concat (markers t toolRes) else []))
              (tr @ pc @ [Executed (FunctionCall_Name t) (FunctionCall_Arguments t) r]))"
    using e by (cases flag)
      (simp_all add: Let_def tool_messages_def markers_def split: outcome.splits sum.splits)
  with pc show ?thesis by blast
qed

lemma for_toolCalls_Returns:
  "for_toolCalls env m flag tcs msgs response tr = (Returns (msgs', response'), tr') \<Longrightarrow>
   \<exists>body. tr' = tr @ body \<and> llm_calls body = [] \<and> errors body = [] \<and>
     executions body = map call_key tcs \<and>
     length (tool_results body) = length tcs \<and>
     length (provider_calls body) = length tcs \<and>
     msgs' = msgs @ concat (map2 tool_messages tcs (tool_results body)) \<and>
     response' = response @ (if flag then concat (concat (map2 markers tcs (tool_results body))) else [])"
proof (induction tcs arbitrary: msgs response tr)
  case Nil
  then show ?case by simp
next
  case (Cons t rest)
  obtain r pc where pc: "llm_calls pc = []" "executions pc = []" "tool_results pc = []"
      "errors pc = []" "\<forall>toolRes. r = Returns (Inr toolRes) \<longrightarrow> length (provider_calls pc) = 1"
      "\<forall>p. r = Panics p \<longrightarrow> p = SliceBoundsOutOfRange"
      "length (provider_calls pc) \<le> 1"
    and step: "for_toolCalls env m flag (t # rest) msgs response tr =
       (case r of
          Panics p \<Rightarrow>
            (Panics p, tr @ pc @ [Executed (FunctionCall_Name t) (FunctionCall_Arguments t) r])
        | Returns (Inl err) \<Rightarrow>
            (Panics (PanicError err),
             tr @ pc @ [Executed (FunctionCall_Name t) (FunctionCall_Arguments t) r])
        | Returns (Inr toolRes) \<Rightarrow>
            for_toolCalls env m flag rest (msgs @ tool_messages t toolRes)
              (response @ (if flag then concat (markers t toolRes) else []))
              (tr @ pc @ [Executed (FunctionCall_Name t) (FunctionCall_Arguments t) r]))"
    using for_toolCalls_step [of env m flag t rest msgs response tr] by blast
  from Cons.prems step obtain toolRes where r: "r = Returns (Inr toolRes)"
    by (auto split: outcome.splits sum.splits)
  let ?ev = "Executed (FunctionCall_Name t) (FunctionCall_Arguments t) r"
  from Cons.prems step r
  have rec: "for_toolCalls env m flag rest (msgs @ tool_messages t toolRes)
      (response @ (if flag then concat (markers t toolRes) else []))
      (tr @ pc @ [?ev]) = (Returns (msgs', response'), tr')"
    by simp
  from Cons.IH [OF rec] obtain body where b: "tr' = (tr @ pc @ [?ev]) @ body"
    "llm_calls body = []" "errors body = []" "executions body = map call_key rest"
    "length (tool_results body) = length rest" "length (provider_calls body) = length rest"
    "msgs' = (msgs @ tool_messages t toolRes) @ concat (map2 tool_messages rest (tool_results body))"
    "response' = (response @ (if flag then concat (markers t toolRes) else [])) @
       (if flag then concat (concat (map2 markers rest (tool_results body))) else [])"
    by blast
  show ?case
    by (rule exI [of _ "pc @ [?ev] @ body"]) (use b pc r in \<open>simp add: call_key_def\<close>)
qed

lemma for_toolCalls_Panics:
  "for_toolCalls env m flag tcs msgs response tr = (Panics p, tr') \<Longrightarrow>
   \<exists>body k. tr' = tr @ body \<and> llm_calls body = [] \<and> k < length tcs \<and>
     executions body = map call_key (take (Suc k) tcs) \<and>
     length (tool_results body) = k \<and> length (provider_calls body) \<le> Suc k \<and>
     body \<noteq> [] \<and> execution_failed (last body) \<and>
     (errors body = [] \<and> p = SliceBoundsOutOfRange \<or>
      (\<exists>e. errors body = [e] \<and> p = PanicError e \<and> event_error (last body) = Some e))"
proof (induction tcs arbitrary: msgs response tr)
  case Nil
  then show ?case by simp
next
  case (Cons t rest)
  obtain r pc where pc: "llm_calls pc = []" "executions pc = []" "tool_results pc = []"
      "errors pc = []" "\<forall>toolRes. r = Returns (Inr toolRes) \<longrightarrow> length (provider_calls pc) = 1"
      "\<forall>p. r = Panics p \<longrightarrow> p = SliceBoundsOutOfRange"
      "length (provider_calls pc) \<le> 1"
    and step: "for_toolCalls env m flag (t # rest) msgs response tr =
       (case r of
          Panics p \<Rightarrow>
            (Panics p, tr @ pc @ [Executed (FunctionCall_Name t) (FunctionCall_Arguments t) r])
        | Returns (Inl err) \<Rightarrow>
            (Panics (PanicError err),
             tr @ pc @ [Executed (FunctionCall_Name t) (FunctionCall_Arguments t) r])
        | Returns (Inr toolRes) \<Rightarrow>
            for_toolCalls env m flag rest (msgs @ tool_messages t toolRes)
              (response @ (if flag then concat (markers t toolRes) else []))
              (tr @ pc @ [Executed (FunctionCall_Name t) (FunctionCall_Arguments t) r]))"
    using for_toolCalls_step [of env m flag t rest msgs response tr] by blast
  let ?ev = "Executed (FunctionCall_Name t) (FunctionCall_Arguments t) r"
  show ?case
  proof (cases r)
    case (Panics q)
    with pc have q: "q = SliceBoundsOutOfRange" by simp
    from Cons.prems step Panics have "p = q" "tr' = tr @ pc @ [?ev]" by simp_all
    then show ?thesis
      by (intro exI [of _ "pc @ [?ev]"] exI [of _ 0]) (use pc Panics q in \<open>simp add: call_key_def\<close>)
  next
    case (Returns x)
    show ?thesis
    proof (cases x)
      case (Inl err)
      from Cons.prems step Returns Inl have "p = PanicError err" "tr' = tr @ pc @ [?ev]"
        by simp_all
      then show ?thesis
        by (intro exI [of _ "pc @ [?ev]"] exI [of _ 0])
          (use pc Returns Inl in \<open>simp add: call_key_def\<close>)
    next
      case (Inr toolRes)
      from Cons.prems step Returns Inr
      have rec: "for_toolCalls env m flag rest (msgs @ tool_messages t toolRes)
          (response @ (if flag then concat (markers t toolRes) else []))
          (tr @ pc @ [?ev]) = (Panics p, tr')"
        by simp
      from Cons.IH [OF rec] obtain body k where b: "tr' = (tr @ pc @ [?ev]) @ body"
        "llm_calls body = []" "k < length rest"
        "executions body = map call_key (take (Suc k) rest)"
        "length (tool_results body) = k" "length (provider_calls body) \<le> Suc k"
        "body \<noteq> []" "execution_failed (last body)"
        "errors body = [] \<and> p = SliceBoundsOutOfRange \<or>
           (\<exists>e. errors body = [e] \<and> p = PanicError e \<and> event_error (last body) = Some e)"
        by blast
      show ?thesis
        by (intro exI [of _ "pc @ [?ev] @ body"] exI [of _ "Suc k"])
          (use b pc Returns Inr in \<open>simp add: call_key_def\<close>)
    qed
  qed
qed


text \<open>The runs of the blocking mode, by what the first response holds.\<close>

lemma GenerateContent_first_fails:
  assumes "first_response env m (human prompt) = Inl err"
  shows "GenerateContent env m prompt flag =
    (Panics (PanicError (GenerationFailed err)), [LLMCall (human prompt) (Inl err)])"
  using assms by (simp add: GenerateContent_def first_response_def human_def Let_def)

lemma GenerateContent_no_choice:
  assumes "first_response env m (human prompt) = Inr resp" "Choices resp = []"
  shows "GenerateContent env m prompt flag =
    (Panics IndexOutOfRange, [LLMCall (human prompt) (Inr resp)])"
  using assms by (simp add: GenerateContent_def first_response_def human_def Let_def)

lemma GenerateContent_no_toolCalls:
  assumes "first_response env m (human prompt) = Inr resp" "Choices resp = choice # others"
    "ToolCalls choice = []"
  shows "GenerateContent env m prompt flag =
    (Returns (Content choice), [LLMCall (human prompt) (Inr resp)])"
  using assms by (simp add: GenerateContent_def first_response_def human_def Let_def)

lemma GenerateContent_toolCalls:
  assumes "first_response env m (human prompt) = Inr resp" "Choices resp = choice # others"
    "ToolCalls choice \<noteq> []"
  shows "GenerateContent env m prompt flag =
    (case for_toolCalls env m flag (ToolCalls choice) (human prompt) []
            [LLMCall (human prompt) (Inr resp)] of
       (Panics p, tr1) \<Rightarrow> (Panics p, tr1)
     | (Returns (msgs1, response), tr1) \<Rightarrow>
         (case Result (LLMModel env tr1 msgs1 (ExtractToolsFromAgent m)) of
            Inl err \<Rightarrow> (Panics (PanicError (GenerationFailed err)), tr1 @ [LLMCall msgs1 (Inl err)])
          | Inr resp2 \<Rightarrow>
              (case Choices resp2 of
                 [] \<Rightarrow> (Panics IndexOutOfRange, tr1 @ [LLMCall msgs1 (Inr resp2)])
               | choice2 # _ \<Rightarrow>
                   (Returns (response @ Content choice2), tr1 @ [LLMCall msgs1 (Inr resp2)]))))"
  using assms
  by (simp add: GenerateContent_def first_response_def human_def Let_def
      split: prod.splits outcome.splits sum.splits list.splits)

lemma length_tool_messages:
  "length rs = length tcs \<Longrightarrow> length (concat (map2 tool_messages tcs rs)) = 2 * length tcs"
  by (induction tcs rs rule: list_induct2') (simp_all add: tool_messages_def)

text \<open>
  The trace of a blocking turn whose first response requests tools: the first LLM call,
  the tool executions, and the final LLM call if no execution failed.
\<close>

lemma GenerateContent_trace:
  assumes first: "first_response env m (human prompt) = Inr resp" "Choices resp = choice # others"
    "ToolCalls choice \<noteq> []"
    and run: "GenerateContent env m prompt flag = (out, tr)"
  shows "(\<exists>body k p. tr = LLMCall (human prompt) (Inr resp) # body \<and> out = Panics p \<and>
            llm_calls body = [] \<and> k < length (ToolCalls choice) \<and>
            executions body = map call_key (take (Suc k) (ToolCalls choice)) \<and>
            body \<noteq> [] \<and> execution_failed (last body) \<and>
            (errors body = [] \<and> p = SliceBoundsOutOfRange \<or>
             (\<exists>e. errors body = [e] \<and> p = PanicError e \<and> event_error (last body) = Some e))) \<or>
         (\<exists>body r2 response.
            tr = LLMCall (human prompt) (Inr resp) # body @
              [LLMCall (human prompt @ concat (map2 tool_messages (ToolCalls choice) (tool_results body))) r2] \<and>
            llm_calls body = [] \<and> errors body = [] \<and>
            executions body = map call_key (ToolCalls choice) \<and>
            length (tool_results body) = length (ToolCalls choice) \<and>
            length (provider_calls body) = length (ToolCalls choice) \<and>
            response = (if flag then concat (concat (map2 markers (ToolCalls choice) (tool_results body))) else []) \<and>
            (case r2 of
               Inl err \<Rightarrow> out = Panics (PanicError (GenerationFailed err))
             | Inr resp2 \<Rightarrow>
                 (case Choices resp2 of
                    [] \<Rightarrow> out = Panics IndexOutOfRange
                  | choice2 # _ \<Rightarrow> out = Returns (response @ Content choice2))))"
proof -
  let ?tr0 = "[LLMCall (human prompt) (Inr resp)]"
  obtain lo tr1 where loop:
    "for_toolCalls env m flag (ToolCalls choice) (human prompt) [] ?tr0 = (lo, tr1)"
    by (cases "for_toolCalls env m flag (ToolCalls choice) (human prompt) [] ?tr0")
  note gc = GenerateContent_toolCalls [OF first, of flag]
  show ?thesis
  proof (cases lo)
    case (Panics p)
    from for_toolCalls_Panics [OF loop [unfolded Panics]]
    obtain body k where b: "tr1 = ?tr0 @ body" "llm_calls body = []"
      "k < length (ToolCalls choice)"
      "executions body = map call_key (take (Suc k) (ToolCalls choice))"
      "body \<noteq> []" "execution_failed (last body)"
      "errors body = [] \<and> p = SliceBoundsOutOfRange \<or>
         (\<exists>e. errors body = [e] \<and> p = PanicError e \<and> event_error (last body) = Some e)"
      by blast
    from run gc loop Panics have "out = Panics p" "tr = tr1" by simp_all
    with b show ?thesis by auto
  next
    case (Returns x)
    obtain msgs1 response where x: "x = (msgs1, response)" by (cases x)
    from for_toolCalls_Returns [OF loop [unfolded Returns x]]
    obtain body where b: "tr1 = ?tr0 @ body" "llm_calls body = []" "errors body = []"
      "executions body = map call_key (ToolCalls choice)"
      "length (tool_results body) = length (ToolCalls choice)"
      "length (provider_calls body) = length (ToolCalls choice)"
      "msgs1 = human prompt @ concat (map2 tool_messages (ToolCalls choice) (tool_results body))"
      "response = [] @ (if flag then concat (concat (map2 markers (ToolCalls choice) (tool_results body))) else [])"
      by blast
    let ?r2 = "Result (LLMModel env tr1 msgs1 (ExtractToolsFromAgent m))"
    from run gc loop Returns x
    have tr: "tr = tr1 @ [LLMCall msgs1 ?r2]"
      by (simp split: sum.splits list.splits)
    from run gc loop Returns x
    have out: "case ?r2 of
               Inl err \<Rightarrow> out = Panics (PanicError (GenerationFailed err))
             | Inr resp2 \<Rightarrow>
                 (case Choices resp2 of
                    [] \<Rightarrow> out = Panics IndexOutOfRange
                  | choice2 # _ \<Rightarrow> out = Returns (response @ Content choice2))"
      by (simp split: sum.splits list.splits)
    have "\<exists>body r2 response.
            tr = LLMCall (human prompt) (Inr resp) # body @
              [LLMCall (human prompt @ concat (map2 tool_messages (ToolCalls choice) (tool_results body))) r2] \<and>
            llm_calls body = [] \<and> errors body = [] \<and>
            executions body = map call_key (ToolCalls choice) \<and>
            length (tool_results body) = length (ToolCalls choice) \<and>
            length (provider_calls body) = length (ToolCalls choice) \<and>
            response = (if flag then concat (concat (map2 markers (ToolCalls choice) (tool_results body))) else []) \<and>
            (case r2 of
               Inl err \<Rightarrow> out = Panics (PanicError (GenerationFailed err))
             | Inr resp2 \<Rightarrow>
                 (case Choices resp2 of
                    [] \<Rightarrow> out = Panics IndexOutOfRange
                  | choice2 # _ \<Rightarrow> out = Returns (response @ Content choice2)))"
      by (intro exI [of _ body] exI [of _ ?r2] exI [of _ response])
        (use b tr out in simp)
    then show ?thesis by blast
  qed
qed

section \<open>The turns of the examples\<close>

lemmas example_defs =
  example_env_def example_Unmarshal_def example_CallTool_def calc_agent_def
  add_call_def neg_call_def bad_call_def big_call_def requests_def answers_def fails_def
  calc_env_def bad_env_def crash_env_def ghost_env_def plain_env_def down_env_def
  final_down_env_def big_env_def leak_env_def

lemmas run_defs =
  GenerateContent_def ExecuteTool_def slice_to_def slice_from_def first_response_def human_def
  ExtractToolsFromAgent_def ai_message_def tool_message_def tool_usage_def tool_response_def
  msgToPrint_def Let_def

lemma calc_run:
  \<open>GenerateContent calc_env calc_agent ''What is 2+2?'' False =
    (Returns ''The answer is 4.'',
     [LLMCall (human ''What is 2+2?'') (Inr (ContentResponse [ContentChoice [] [add_call, neg_call]])),
      ProviderCall (MCPServer ''calc'' 0) ''add'' (Some ''{"a":2,"b":2}'')
        (Inr (CallToolResult False [''4''])),
      Executed ''calc__add'' ''{"a":2,"b":2}'' (Returns (Inr ''4'')),
      ProviderCall (MCPServer ''calc'' 0) ''neg'' None (Inr (CallToolResult True [''unknown tool''])),
      Executed ''calc__neg'' ''{}'' (Returns (Inr ''unknown tool'')),
      LLMCall (human ''What is 2+2?'' @ tool_messages add_call ''4'' @
          tool_messages neg_call ''unknown tool'')
        (Inr (ContentResponse [ContentChoice ''The answer is 4.'' [add_call]]))])\<close>
  by (simp add: run_defs example_defs tool_messages_def)

lemma bad_run:
  \<open>GenerateContent bad_env calc_agent ''What is 2+2?'' False =
    (Panics (PanicError (InvalidArguments ''invalid character'')),
     [LLMCall (human ''What is 2+2?'') (Inr (ContentResponse [ContentChoice [] [bad_call, add_call]])),
      Executed ''calc__add'' ''{bad'' (Returns (Inl (InvalidArguments ''invalid character'')))])\<close>
  by (simp add: run_defs example_defs)


lemma crash_run:
  "GenerateContent crash_env calc_agent ''What is 2+2?'' False =
    (Panics (PanicError (ToolExecutionFailed ''connection reset'')),
     [LLMCall (human ''What is 2+2?'')
        (Inr (ContentResponse [ContentChoice [] [ToolCall ''call_5'' ''calc__crash'' []]])),
      ProviderCall (MCPServer ''calc'' 0) ''crash'' None (Inl ''connection reset''),
      Executed ''calc__crash'' [] (Returns (Inl (ToolExecutionFailed ''connection reset'')))])"
  by (simp add: run_defs example_defs)

lemma ghost_run:
  "GenerateContent ghost_env calc_agent ''What is 2+2?'' False =
    (Panics (PanicError UnknownProvider),
     [LLMCall (human ''What is 2+2?'')
        (Inr (ContentResponse [ContentChoice [] [ToolCall ''call_6'' ''ghost__add'' []]])),
      Executed ''ghost__add'' [] (Returns (Inl UnknownProvider))])"
  by (simp add: run_defs example_defs)

lemma down_run:
  "GenerateContent down_env calc_agent ''What is 2+2?'' False =
    (Panics (PanicError (GenerationFailed ''connection refused'')),
     [LLMCall (human ''What is 2+2?'') (Inl ''connection refused'')])"
  by (simp add: run_defs example_defs)

lemma final_down_run:
  \<open>GenerateContent final_down_env calc_agent ''What is 2+2?'' False =
    (Panics (PanicError (GenerationFailed ''connection refused'')),
     [LLMCall (human ''What is 2+2?'') (Inr (ContentResponse [ContentChoice [] [add_call]])),
      ProviderCall (MCPServer ''calc'' 0) ''add'' (Some ''{"a":2,"b":2}'')
        (Inr (CallToolResult False [''4''])),
      Executed ''calc__add'' ''{"a":2,"b":2}'' (Returns (Inr ''4'')),
      LLMCall (human ''What is 2+2?'' @ tool_messages add_call ''4'') (Inl ''connection refused'')])\<close>
  by (simp add: run_defs example_defs tool_messages_def)

section \<open>The two versions of the blocking mode\<close>

text \<open>The first version of the blocking mode is the second one without progress markers.\<close>

lemma agent_for_toolCalls_eq:
  "agent_for_toolCalls env m tcs msgs tr =
     (case for_toolCalls env m False tcs msgs response tr of
        (Returns (msgs', response'), tr') \<Rightarrow> (Returns msgs', tr')
      | (Panics p, tr') \<Rightarrow> (Panics p, tr'))"
  by (induction tcs arbitrary: msgs tr) (auto simp: Let_def split: prod.splits outcome.splits sum.splits)

lemma for_toolCalls_False_response:
  "for_toolCalls env m False tcs msgs response tr = (Returns (msgs', response'), tr') \<Longrightarrow>
   response' = response"
  by (drule for_toolCalls_Returns) auto

lemma agent_GenerateContent_eq:
  "agent_GenerateContent env m prompt = GenerateContent env m prompt False"
proof -
  have "agent_for_toolCalls env m tcs msgs tr =
     (case for_toolCalls env m False tcs msgs [] tr of
        (Returns (msgs', response'), tr') \<Rightarrow> (Returns msgs', tr')
      | (Panics p, tr') \<Rightarrow> (Panics p, tr'))" for tcs msgs tr
    by (rule agent_for_toolCalls_eq)
  then show ?thesis
    unfolding agent_GenerateContent_def GenerateContent_def
    by (auto simp: Let_def split: prod.splits outcome.splits sum.splits list.splits
        dest: for_toolCalls_False_response)
qed

section \<open>Blocking mode: a first response without tool calls\<close>



section \<open>Blocking mode: a first response with tool calls\<close>

text \<open>
  Claim C1, amended. When the first LLM response requests \<open>N \<ge> 1\<close> tools and no tool
  execution of the turn fails, the blocking mode executes exactly the \<open>N\<close> requested tools,
  in the order of the response and with the names and arguments the LLM gave, each with one
  provider contact; then it makes exactly one more LLM call, the last event of the turn.
  The conversation of that call is the first one followed by two messages per tool
  call, the request and then the result, in order: it has grown by exactly \<open>2N\<close> messages.
\<close>

theorem tool_calls_then_one_LLM_call:
  assumes "first_response env m (human prompt) = Inr resp"
    and "Choices resp = choice # others"
    and "ToolCalls choice = toolCalls"
    and "toolCalls \<noteq> []"
    and "GenerateContent env m prompt addNotFinalResponses = (out, tr)"
    and "\<not> list_ex execution_failed tr"
  shows "executions tr = map call_key toolCalls \<and>
         length (provider_calls tr) = length toolCalls \<and>
         length (tool_results tr) = length toolCalls \<and>
         llm_calls tr =
           [human prompt, human prompt @ concat (map2 tool_messages toolCalls (tool_results tr))] \<and>
         llm_calls (butlast (tl tr)) = [] \<and>
         length (human prompt @ concat (map2 tool_messages toolCalls (tool_results tr))) =
           length (human prompt) + 2 * length toolCalls"
proof -
  from assms(1-4) have first: "first_response env m (human prompt) = Inr resp"
    "Choices resp = choice # others" "ToolCalls choice \<noteq> []"
    by simp_all
  from GenerateContent_trace [OF first assms(5)] assms(6)
  obtain body r2 where b:
    "tr = LLMCall (human prompt) (Inr resp) # body @
       [LLMCall (human prompt @ concat (map2 tool_messages (ToolCalls choice) (tool_results body))) r2]"
    "llm_calls body = []" "executions body = map call_key (ToolCalls choice)"
    "length (tool_results body) = length (ToolCalls choice)"
    "length (provider_calls body) = length (ToolCalls choice)"
    by (auto simp: list_ex_iff)
  have len: "length (concat (map2 tool_messages toolCalls (tool_results body))) = 2 * length toolCalls"
    using b(4) assms(3) by (simp add: length_tool_messages)
  from b len assms(3) show ?thesis by (simp add: butlast_append)
qed

theorem tool_calls_then_one_LLM_call_witness:
  \<open>first_response calc_env calc_agent (human ''What is 2+2?'') =
     Inr (ContentResponse [ContentChoice [] [add_call, neg_call]]) \<and>
   \<not> list_ex execution_failed (snd (GenerateContent calc_env calc_agent ''What is 2+2?'' False)) \<and>
   executions (snd (GenerateContent calc_env calc_agent ''What is 2+2?'' False)) =
     [(''calc__add'', ''{"a":2,"b":2}''), (''calc__neg'', ''{}'')] \<and>
   length (provider_calls (snd (GenerateContent calc_env calc_agent ''What is 2+2?'' False))) = 2 \<and>
   tool_results (snd (GenerateContent calc_env calc_agent ''What is 2+2?'' False)) =
     [''4'', ''unknown tool''] \<and>
   llm_calls (snd (GenerateContent calc_env calc_agent ''What is 2+2?'' False)) =
     [human ''What is 2+2?'',
      human ''What is 2+2?'' @
        [ai_message add_call, tool_message add_call ''4'',
         ai_message neg_call, tool_message neg_call ''unknown tool'']]\<close>
proof -
  have h1: "first_response calc_env calc_agent (human ''What is 2+2?'') =
     Inr (ContentResponse [ContentChoice [] [add_call, neg_call]])"
    by (simp add: first_response_def example_defs)
  have h2: "Choices (ContentResponse [ContentChoice [] [add_call, neg_call]]) =
     ContentChoice [] [add_call, neg_call] # []" by simp
  have h3: "ToolCalls (ContentChoice [] [add_call, neg_call]) = [add_call, neg_call]" by simp
  have h4: "[add_call, neg_call] \<noteq> []" by simp
  have h5: "GenerateContent calc_env calc_agent ''What is 2+2?'' False =
    (fst (GenerateContent calc_env calc_agent ''What is 2+2?'' False),
     snd (GenerateContent calc_env calc_agent ''What is 2+2?'' False))" by simp
  have h6: "\<not> list_ex execution_failed (snd (GenerateContent calc_env calc_agent ''What is 2+2?'' False))"
    by (simp add: calc_run)
  show ?thesis
    using h1 h6 tool_calls_then_one_LLM_call [OF h1 h2 h3 h4 h5 h6]
    by (simp add: calc_run tool_messages_def call_key_def add_call_def neg_call_def)
qed

text \<open>
  The claim as stated, for every first response with tool calls, fails when a tool
  execution fails: the error is \<open>panic(err)\<close>, and the turn ends there. Here the first of two
  requested tools has malformed arguments: one tool is executed, not two, no provider is
  contacted, and there is no further LLM call.
\<close>

theorem tool_calls_then_one_LLM_call_counterexample:
  \<open>first_response bad_env calc_agent (human ''What is 2+2?'') =
     Inr (ContentResponse [ContentChoice [] [bad_call, add_call]]) \<and>
   fst (GenerateContent bad_env calc_agent ''What is 2+2?'' False) =
     Panics (PanicError (InvalidArguments ''invalid character'')) \<and>
   executions (snd (GenerateContent bad_env calc_agent ''What is 2+2?'' False)) =
     [(''calc__add'', ''{bad'')] \<and>
   provider_calls (snd (GenerateContent bad_env calc_agent ''What is 2+2?'' False)) = [] \<and>
   llm_calls (snd (GenerateContent bad_env calc_agent ''What is 2+2?'' False)) =
     [human ''What is 2+2?'']\<close>
  by (simp add: bad_run) (simp add: first_response_def example_defs)

section \<open>Blocking mode: errors\<close>

text \<open>
  Claim C7, amended. In the blocking mode an error of any kind (invalid arguments, unknown
  provider, failed tool execution, failed marshalling, failed generation) aborts the turn:
  at most one error occurs in a turn, and when one occurs it is the last event of the
  turn, so nothing is executed or generated after it. The error is not returned:
  \<open>GenerateContent\<close> has no error result, and the call panics with the error as the panic's
  value. Conversely the call panics with an error only when that error occurred. The same
  holds for the first version of \<open>GenerateContent\<close>, which is the second one without progress
  markers.
\<close>

theorem first_error_aborts_the_turn:
  assumes "GenerateContent env m prompt addNotFinalResponses = (out, tr)"
  shows "(errors tr = [] \<and> (\<forall>e. out \<noteq> Panics (PanicError e)) \<or>
          (\<exists>e. errors tr = [e] \<and> event_error (last tr) = Some e \<and> out = Panics (PanicError e))) \<and>
         agent_GenerateContent env m prompt = GenerateContent env m prompt False"
proof -
  have "errors tr = [] \<and> (\<forall>e. out \<noteq> Panics (PanicError e)) \<or>
          (\<exists>e. errors tr = [e] \<and> event_error (last tr) = Some e \<and> out = Panics (PanicError e))"
  proof (cases "first_response env m (human prompt)")
    case (Inl err)
    from GenerateContent_first_fails [OF Inl, of addNotFinalResponses] assms
    show ?thesis by simp
  next
    case (Inr resp)
    show ?thesis
    proof (cases "Choices resp")
      case Nil
      from GenerateContent_no_choice [OF Inr Nil, of addNotFinalResponses] assms
      show ?thesis by auto
    next
      case (Cons choice others)
      show ?thesis
      proof (cases "ToolCalls choice = []")
        case True
        from GenerateContent_no_toolCalls [OF Inr Cons True, of addNotFinalResponses] assms
        show ?thesis by auto
      next
        case False
        from GenerateContent_trace [OF Inr Cons False assms]
        consider (silent) body where "tr = LLMCall (human prompt) (Inr resp) # body"
            "out = Panics SliceBoundsOutOfRange" "errors body = []"
          | (error) body e where "tr = LLMCall (human prompt) (Inr resp) # body"
            "body \<noteq> []" "errors body = [e]" "out = Panics (PanicError e)"
            "event_error (last body) = Some e"
          | (final) body msgs1 r2 response where
            "tr = LLMCall (human prompt) (Inr resp) # body @ [LLMCall msgs1 r2]"
            "errors body = []"
            "case r2 of
               Inl err \<Rightarrow> out = Panics (PanicError (GenerationFailed err))
             | Inr resp2 \<Rightarrow>
                 (case Choices resp2 of
                    [] \<Rightarrow> out = Panics IndexOutOfRange
                  | choice2 # _ \<Rightarrow> out = Returns (response @ Content choice2))"
          by blast
        then show ?thesis
        proof cases
          case silent
          then show ?thesis by simp
        next
          case error
          then show ?thesis by simp
        next
          case final
          then show ?thesis by (auto split: sum.splits list.splits)
        qed
      qed
    qed
  qed
  then show ?thesis by (simp add: agent_GenerateContent_eq)
qed


theorem first_error_aborts_the_turn_witness:
  "errors (snd (GenerateContent bad_env calc_agent ''What is 2+2?'' False)) =
     [InvalidArguments ''invalid character''] \<and>
   fst (GenerateContent bad_env calc_agent ''What is 2+2?'' False) =
     Panics (PanicError (InvalidArguments ''invalid character'')) \<and>
   errors (snd (GenerateContent ghost_env calc_agent ''What is 2+2?'' False)) = [UnknownProvider] \<and>
   fst (GenerateContent ghost_env calc_agent ''What is 2+2?'' False) =
     Panics (PanicError UnknownProvider) \<and>
   errors (snd (GenerateContent crash_env calc_agent ''What is 2+2?'' False)) =
     [ToolExecutionFailed ''connection reset''] \<and>
   fst (GenerateContent crash_env calc_agent ''What is 2+2?'' False) =
     Panics (PanicError (ToolExecutionFailed ''connection reset'')) \<and>
   errors (snd (GenerateContent final_down_env calc_agent ''What is 2+2?'' False)) =
     [GenerationFailed ''connection refused''] \<and>
   fst (GenerateContent final_down_env calc_agent ''What is 2+2?'' False) =
     Panics (PanicError (GenerationFailed ''connection refused'')) \<and>
   errors (snd (GenerateContent calc_env calc_agent ''What is 2+2?'' False)) = [] \<and>
   fst (GenerateContent calc_env calc_agent ''What is 2+2?'' False) = Returns ''The answer is 4.''"
  using first_error_aborts_the_turn [OF bad_run] first_error_aborts_the_turn [OF ghost_run]
    first_error_aborts_the_turn [OF crash_run] first_error_aborts_the_turn [OF final_down_run]
    first_error_aborts_the_turn [OF calc_run]
  by (simp add: bad_run ghost_run crash_run final_down_run calc_run)

text \<open>
  The claim as stated, that the error is returned to the caller as the error result of
  the call, fails: when the LLM fails, the call does not return.
\<close>

theorem first_error_aborts_the_turn_counterexample:
  "first_response down_env calc_agent (human ''What is 2+2?'') = Inl ''connection refused'' \<and>
   GenerateContent down_env calc_agent ''What is 2+2?'' False =
     (Panics (PanicError (GenerationFailed ''connection refused'')),
      [LLMCall (human ''What is 2+2?'') (Inl ''connection refused'')]) \<and>
   agent_GenerateContent down_env calc_agent ''What is 2+2?'' =
     (Panics (PanicError (GenerationFailed ''connection refused'')),
      [LLMCall (human ''What is 2+2?'') (Inl ''connection refused'')])"
  by (simp add: agent_GenerateContent_eq down_run) (simp add: first_response_def example_defs)

section \<open>Streaming mode, step by step\<close>

lemma stream_toolCalls_step:
  "\<exists>r pc. llm_calls pc = [] \<and> executions pc = [] \<and> tool_results pc = [] \<and> errors pc = [] \<and>
     length (provider_calls pc) \<le> 1 \<and>
     (\<forall>toolRes. r = Returns (Inr toolRes) \<longrightarrow> length (provider_calls pc) = 1) \<and>
     (\<forall>p. r = Panics p \<longrightarrow> p = SliceBoundsOutOfRange) \<and>
     stream_toolCalls env m flag (t # rest) msgs chan tr =
       (case r of
          Panics p \<Rightarrow>
            (Panics p, msgs, chan @ (if flag then [tool_usage (FunctionCall_Name t)] else []),
             tr @ pc @ [Executed (FunctionCall_Name t) (FunctionCall_Arguments t) r])
        | Returns (Inl err) \<Rightarrow>
            (Returns False, msgs,
             chan @ (if flag then [tool_usage (FunctionCall_Name t)] else []) @
               [''Error executing tool: '' @ Error env err],
             tr @ pc @ [Executed (FunctionCall_Name t) (FunctionCall_Arguments t) r])
        | Returns (Inr toolRes) \<Rightarrow>
            stream_toolCalls env m flag rest (msgs @ tool_messages t toolRes)
              (chan @ (if flag then markers t toolRes else []))
              (tr @ pc @ [Executed (FunctionCall_Name t) (FunctionCall_Arguments t) r]))"
proof -
  obtain r pc where e: "ExecuteTool env m tr (FunctionCall_Name t) (FunctionCall_Arguments t) = (r, tr @ pc)"
    and pc: "llm_calls pc = []" "executions pc = []" "tool_results pc = []" "errors pc = []"
      "length (provider_calls pc) \<le> 1"
      "\<forall>toolRes. r = Returns (Inr toolRes) \<longrightarrow> length (provider_calls pc) = 1"
      "\<forall>p. r = Panics p \<longrightarrow> p = SliceBoundsOutOfRange"
    using step_shape [of env m tr "FunctionCall_Name t" "FunctionCall_Arguments t"] by blast
  have "stream_toolCalls env m flag (t # rest) msgs chan tr =
       (case r of
          Panics p \<Rightarrow>
            (Panics p, msgs, chan @ (if flag then [tool_usage (FunctionCall_Name t)] else []),
             tr @ pc @ [Executed (FunctionCall_Name t) (FunctionCall_Arguments t) r])
        | Returns (Inl err) \<Rightarrow>
            (Returns False, msgs,
             chan @ (if flag then [tool_usage (FunctionCall_Name t)] else []) @
               [''Error executing tool: '' @ Error env err],
             tr @ pc @ [Executed (FunctionCall_Name t) (FunctionCall_Arguments t) r])
        | Returns (Inr toolRes) \<Rightarrow>
            stream_toolCalls env m flag rest (msgs @ tool_messages t toolRes)
              (chan @ (if flag then markers t toolRes else []))
              (tr @ pc @ [Executed (FunctionCall_Name t) (FunctionCall_Arguments t) r]))"
    using e by (cases flag)
      (simp_all add: Let_def tool_messages_def markers_def split: outcome.splits sum.splits)
  with pc show ?thesis by blast
qed

lemma stream_toolCalls_shape:
  "stream_toolCalls env m flag tcs msgs chan tr = (st, msgs', chan', tr') \<Longrightarrow>
   \<exists>body k sent. tr' = tr @ body \<and> chan' = chan @ sent \<and> llm_calls body = [] \<and>
     k \<le> length tcs \<and> executions body = map call_key (take k tcs) \<and>
     msgs' = msgs @ concat (map2 tool_messages tcs (tool_results body)) \<and>
     (st = Returns True \<longrightarrow>
        k = length tcs \<and> length (tool_results body) = length tcs \<and> errors body = [] \<and>
        sent = (if flag then concat (map2 markers tcs (tool_results body)) else []))"
proof (induction tcs arbitrary: msgs chan tr)
  case Nil
  then show ?case by simp
next
  case (Cons t rest)
  let ?ev = "\<lambda>r. Executed (FunctionCall_Name t) (FunctionCall_Arguments t) r"
  obtain r pc where pc: "llm_calls pc = []" "executions pc = []" "tool_results pc = []"
      "errors pc = []"
    and step: "stream_toolCalls env m flag (t # rest) msgs chan tr =
       (case r of
          Panics p \<Rightarrow>
            (Panics p, msgs, chan @ (if flag then [tool_usage (FunctionCall_Name t)] else []),
             tr @ pc @ [?ev r])
        | Returns (Inl err) \<Rightarrow>
            (Returns False, msgs,
             chan @ (if flag then [tool_usage (FunctionCall_Name t)] else []) @
               [''Error executing tool: '' @ Error env err],
             tr @ pc @ [?ev r])
        | Returns (Inr toolRes) \<Rightarrow>
            stream_toolCalls env m flag rest (msgs @ tool_messages t toolRes)
              (chan @ (if flag then markers t toolRes else []))
              (tr @ pc @ [?ev r]))"
    using stream_toolCalls_step [of env m flag t rest msgs chan tr] by blast
  show ?case
  proof (cases r)
    case (Panics q)
    from Cons.prems step Panics have "st = Panics q" "msgs' = msgs" "tr' = tr @ pc @ [?ev r]"
      "chan' = chan @ (if flag then [tool_usage (FunctionCall_Name t)] else [])"
      by simp_all
    then show ?thesis
      by (intro exI [of _ "pc @ [?ev r]"] exI [of _ 1]
          exI [of _ "if flag then [tool_usage (FunctionCall_Name t)] else []"])
        (use pc Panics in \<open>simp add: call_key_def\<close>)
  next
    case (Returns x)
    show ?thesis
    proof (cases x)
      case (Inl err)
      from Cons.prems step Returns Inl have "st = Returns False" "msgs' = msgs"
        "tr' = tr @ pc @ [?ev r]"
        "chan' = chan @ (if flag then [tool_usage (FunctionCall_Name t)] else []) @
               [''Error executing tool: '' @ Error env err]"
        by simp_all
      then show ?thesis
        by (intro exI [of _ "pc @ [?ev r]"] exI [of _ 1]
            exI [of _ "(if flag then [tool_usage (FunctionCall_Name t)] else []) @
               [''Error executing tool: '' @ Error env err]"])
          (use pc Returns Inl in \<open>simp add: call_key_def\<close>)
    next
      case (Inr toolRes)
      from Cons.prems step Returns Inr
      have rec: "stream_toolCalls env m flag rest (msgs @ tool_messages t toolRes)
              (chan @ (if flag then markers t toolRes else []))
              (tr @ pc @ [?ev r]) = (st, msgs', chan', tr')"
        by simp
      from Cons.IH [OF rec] obtain body k sent where b: "tr' = (tr @ pc @ [?ev r]) @ body"
        "chan' = (chan @ (if flag then markers t toolRes else [])) @ sent"
        "llm_calls body = []" "k \<le> length rest"
        "executions body = map call_key (take k rest)"
        "msgs' = (msgs @ tool_messages t toolRes) @ concat (map2 tool_messages rest (tool_results body))"
        "st = Returns True \<longrightarrow>
           k = length rest \<and> length (tool_results body) = length rest \<and> errors body = [] \<and>
           sent = (if flag then concat (map2 markers rest (tool_results body)) else [])"
        by blast
      show ?thesis
        by (intro exI [of _ "pc @ [?ev r] @ body"] exI [of _ "Suc k"]
            exI [of _ "(if flag then markers t toolRes else []) @ sent"])
          (use b pc Returns Inr in \<open>simp add: call_key_def\<close>)
    qed
  qed
qed


text \<open>The runs of the streaming mode, by what the first response holds.\<close>

lemma GenerateContentAsStreaming_first_fails:
  assumes "first_response env m (human prompt) = Inl err"
  shows "GenerateContentAsStreaming env m prompt flag =
    (Returns (),
     concat (map (streamingFunc env) (Chunks (LLMModel env [] (human prompt) (ExtractToolsFromAgent m)))) @
       [''Error generating content: '' @ err],
     [LLMCall (human prompt) (Inl err)])"
  using assms by (simp add: GenerateContentAsStreaming_def first_response_def human_def Let_def)

lemma GenerateContentAsStreaming_no_toolCalls:
  assumes "first_response env m (human prompt) = Inr resp"
    and "Choices resp = [] \<or> (\<exists>choice others. Choices resp = choice # others \<and> ToolCalls choice = [])"
  shows "GenerateContentAsStreaming env m prompt flag =
    (Returns (),
     concat (map (streamingFunc env) (Chunks (LLMModel env [] (human prompt) (ExtractToolsFromAgent m)))),
     [LLMCall (human prompt) (Inr resp)])"
  using assms
  by (auto simp: GenerateContentAsStreaming_def first_response_def human_def Let_def)

lemma GenerateContentAsStreaming_toolCalls:
  assumes "first_response env m (human prompt) = Inr resp" "Choices resp = choice # others"
    "ToolCalls choice \<noteq> []"
  shows "GenerateContentAsStreaming env m prompt flag =
    (case stream_toolCalls env m flag (ToolCalls choice) (human prompt)
            (concat (map (streamingFunc env)
               (Chunks (LLMModel env [] (human prompt) (ExtractToolsFromAgent m)))))
            [LLMCall (human prompt) (Inr resp)] of
       (Panics p, msgs1, chan1, tr1) \<Rightarrow> (Panics p, chan1, tr1)
     | (Returns False, msgs1, chan1, tr1) \<Rightarrow> (Returns (), chan1, tr1)
     | (Returns True, msgs1, chan1, tr1) \<Rightarrow>
         (Returns (),
          chan1 @ Chunks (LLMModel env tr1 msgs1 (ExtractToolsFromAgent m)) @
            (case Result (LLMModel env tr1 msgs1 (ExtractToolsFromAgent m)) of
               Inl err \<Rightarrow> [''Error generating final content: '' @ err]
             | Inr finalResp \<Rightarrow> []),
          tr1 @ [LLMCall msgs1 (Result (LLMModel env tr1 msgs1 (ExtractToolsFromAgent m)))]))"
  using assms
  by (simp add: GenerateContentAsStreaming_def first_response_def human_def Let_def
      split: prod.splits outcome.splits sum.splits list.splits bool.splits)

text \<open>
  The trace and the channel of a streaming turn whose first response requests tools.
\<close>

lemma GenerateContentAsStreaming_trace:
  assumes first: "first_response env m (human prompt) = Inr resp" "Choices resp = choice # others"
    "ToolCalls choice \<noteq> []"
    and run: "GenerateContentAsStreaming env m prompt flag = (out, chan, tr)"
  shows "\<exists>body k sent.
      llm_calls body = [] \<and> k \<le> length (ToolCalls choice) \<and>
      executions body = map call_key (take k (ToolCalls choice)) \<and>
      (tr = LLMCall (human prompt) (Inr resp) # body \<and>
       chan = concat (map (streamingFunc env)
                (Chunks (LLMModel env [] (human prompt) (ExtractToolsFromAgent m)))) @ sent \<or>
       (\<exists>g2. tr = LLMCall (human prompt) (Inr resp) # body @
            [LLMCall (human prompt @ concat (map2 tool_messages (ToolCalls choice) (tool_results body)))
               (Result g2)] \<and>
          g2 = LLMModel env (LLMCall (human prompt) (Inr resp) # body)
                 (human prompt @ concat (map2 tool_messages (ToolCalls choice) (tool_results body)))
                 (ExtractToolsFromAgent m) \<and>
          length (tool_results body) = length (ToolCalls choice) \<and> errors body = [] \<and>
          chan = concat (map (streamingFunc env)
                   (Chunks (LLMModel env [] (human prompt) (ExtractToolsFromAgent m)))) @
                 (if flag then concat (map2 markers (ToolCalls choice) (tool_results body)) else []) @
                 Chunks g2 @
                 (case Result g2 of
                    Inl err \<Rightarrow> [''Error generating final content: '' @ err]
                  | Inr finalResp \<Rightarrow> [])))"
proof -
  let ?tr0 = "[LLMCall (human prompt) (Inr resp)]"
  let ?chan0 = "concat (map (streamingFunc env)
      (Chunks (LLMModel env [] (human prompt) (ExtractToolsFromAgent m))))"
  obtain st msgs1 chan1 tr1 where loop:
    "stream_toolCalls env m flag (ToolCalls choice) (human prompt) ?chan0 ?tr0 = (st, msgs1, chan1, tr1)"
    by (cases "stream_toolCalls env m flag (ToolCalls choice) (human prompt) ?chan0 ?tr0")
  from stream_toolCalls_shape [OF loop]
  obtain body k sent where b: "tr1 = ?tr0 @ body" "chan1 = ?chan0 @ sent" "llm_calls body = []"
    "k \<le> length (ToolCalls choice)" "executions body = map call_key (take k (ToolCalls choice))"
    "msgs1 = human prompt @ concat (map2 tool_messages (ToolCalls choice) (tool_results body))"
    "st = Returns True \<longrightarrow>
       k = length (ToolCalls choice) \<and> length (tool_results body) = length (ToolCalls choice) \<and>
       errors body = [] \<and>
       sent = (if flag then concat (map2 markers (ToolCalls choice) (tool_results body)) else [])"
    by blast
  note gc = GenerateContentAsStreaming_toolCalls [OF first, of flag]
  show ?thesis
  proof (cases "st = Returns True")
    case False
    with run gc loop have "tr = tr1" "chan = chan1"
      by (auto split: outcome.splits bool.splits)
    with b show ?thesis by auto
  next
    case True
    let ?g2 = "LLMModel env tr1 msgs1 (ExtractToolsFromAgent m)"
    from run gc loop True have "tr = tr1 @ [LLMCall msgs1 (Result ?g2)]"
      "chan = chan1 @ Chunks ?g2 @
         (case Result ?g2 of Inl err \<Rightarrow> [''Error generating final content: '' @ err]
          | Inr finalResp \<Rightarrow> [])"
      by simp_all
    with b True show ?thesis
      by (intro exI [of _ body] exI [of _ k] exI [of _ sent]) simp
  qed
qed


section \<open>One round of tool calls\<close>

lemma prefix_call_keys: "prefix (map call_key (take k tcs)) (map call_key tcs)"
  by (simp add: map_mono_prefix take_is_prefix)

lemma first_toolCalls_cases:
  obtains (fails) err where "first_response env m msgs = Inl err" "first_toolCalls env m msgs = []"
  | (none) resp where "first_response env m msgs = Inr resp" "first_toolCalls env m msgs = []"
      "Choices resp = [] \<or> (\<exists>choice others. Choices resp = choice # others \<and> ToolCalls choice = [])"
  | (some) resp choice others where "first_response env m msgs = Inr resp"
      "Choices resp = choice # others" "ToolCalls choice \<noteq> []"
      "first_toolCalls env m msgs = ToolCalls choice"
proof (cases "first_response env m msgs")
  case (Inl err)
  then show ?thesis by (intro fails [of err]) (simp_all add: first_toolCalls_def)
next
  case (Inr resp)
  show ?thesis
  proof (cases "Choices resp")
    case Nil
    with Inr show ?thesis by (intro none [of resp]) (simp_all add: first_toolCalls_def)
  next
    case (Cons choice others)
    show ?thesis
    proof (cases "ToolCalls choice = []")
      case True
      with Inr Cons show ?thesis by (intro none [of resp]) (simp_all add: first_toolCalls_def)
    next
      case False
      with Inr Cons show ?thesis
        by (intro some [of resp choice others]) (simp_all add: first_toolCalls_def)
    qed
  qed
qed

lemma GenerateContent_one_round:
  "\<exists>r1 body rest. snd (GenerateContent env m prompt flag) = LLMCall (human prompt) r1 # body @ rest \<and>
     llm_calls body = [] \<and>
     prefix (executions body) (map call_key (first_toolCalls env m (human prompt))) \<and>
     (rest = [] \<or> (\<exists>msgs1 r2. rest = [LLMCall msgs1 r2]))"
proof (cases env m "human prompt" rule: first_toolCalls_cases)
  case (fails err)
  from GenerateContent_first_fails [OF fails(1), of flag] show ?thesis by simp
next
  case (none resp)
  then consider "Choices resp = []"
    | choice others where "Choices resp = choice # others" "ToolCalls choice = []"
    by blast
  then show ?thesis
  proof cases
    case 1
    from GenerateContent_no_choice [OF none(1) 1, of flag] show ?thesis by simp
  next
    case 2
    from GenerateContent_no_toolCalls [OF none(1) 2, of flag] show ?thesis by simp
  qed
next
  case (some resp choice others)
  obtain out tr where run: "GenerateContent env m prompt flag = (out, tr)"
    by (cases "GenerateContent env m prompt flag")
  from GenerateContent_trace [OF some(1-3) run]
  consider (abort) body k where "tr = LLMCall (human prompt) (Inr resp) # body"
      "llm_calls body = []" "executions body = map call_key (take (Suc k) (ToolCalls choice))"
    | (final) body msgs1 r2 where "tr = LLMCall (human prompt) (Inr resp) # body @ [LLMCall msgs1 r2]"
      "llm_calls body = []" "executions body = map call_key (ToolCalls choice)"
    by blast
  then show ?thesis
  proof cases
    case abort
    with run some(4) show ?thesis
      by (intro exI [of _ "Inr resp"] exI [of _ body] exI [of _ "[]"])
        (simp add: prefix_call_keys)
  next
    case final
    with run some(4) show ?thesis
      by (intro exI [of _ "Inr resp"] exI [of _ body] exI [of _ "[LLMCall msgs1 r2]"]) simp
  qed
qed

lemma GenerateContentAsStreaming_one_round:
  "\<exists>r1 body rest.
     snd (snd (GenerateContentAsStreaming env m prompt flag)) = LLMCall (human prompt) r1 # body @ rest \<and>
     llm_calls body = [] \<and>
     prefix (executions body) (map call_key (first_toolCalls env m (human prompt))) \<and>
     (rest = [] \<or> (\<exists>msgs1 r2. rest = [LLMCall msgs1 r2]))"
proof (cases env m "human prompt" rule: first_toolCalls_cases)
  case (fails err)
  from GenerateContentAsStreaming_first_fails [OF fails(1), of flag] show ?thesis by simp
next
  case (none resp)
  from GenerateContentAsStreaming_no_toolCalls [OF none(1) none(3), of flag] show ?thesis by simp
next
  case (some resp choice others)
  obtain out chan tr where run: "GenerateContentAsStreaming env m prompt flag = (out, chan, tr)"
    by (cases "GenerateContentAsStreaming env m prompt flag")
  from GenerateContentAsStreaming_trace [OF some(1-3) run]
  consider (abort) body k where "tr = LLMCall (human prompt) (Inr resp) # body"
      "llm_calls body = []" "executions body = map call_key (take k (ToolCalls choice))"
    | (final) body msgs1 r2 k where "tr = LLMCall (human prompt) (Inr resp) # body @ [LLMCall msgs1 r2]"
      "llm_calls body = []" "executions body = map call_key (take k (ToolCalls choice))"
    by blast
  then show ?thesis
  proof cases
    case abort
    with run some(4) show ?thesis
      by (intro exI [of _ "Inr resp"] exI [of _ body] exI [of _ "[]"])
        (simp add: prefix_call_keys)
  next
    case final
    with run some(4) show ?thesis
      by (intro exI [of _ "Inr resp"] exI [of _ body] exI [of _ "[LLMCall msgs1 r2]"])
        (simp add: prefix_call_keys)
  qed
qed

lemmas stream_defs =
  GenerateContentAsStreaming_def ExecuteTool_def slice_to_def slice_from_def first_response_def
  human_def ExtractToolsFromAgent_def ai_message_def tool_message_def tool_usage_def
  tool_response_def msgToPrint_def Let_def streamingFunc_def Unmarshal_slice_def Unmarshal_map_def

lemma calc_stream:
  \<open>GenerateContentAsStreaming calc_env calc_agent ''What is 2+2?'' False =
    (Returns (), [''The answer is 4.''],
     [LLMCall (human ''What is 2+2?'') (Inr (ContentResponse [ContentChoice [] [add_call, neg_call]])),
      ProviderCall (MCPServer ''calc'' 0) ''add'' (Some ''{"a":2,"b":2}'')
        (Inr (CallToolResult False [''4''])),
      Executed ''calc__add'' ''{"a":2,"b":2}'' (Returns (Inr ''4'')),
      ProviderCall (MCPServer ''calc'' 0) ''neg'' None (Inr (CallToolResult True [''unknown tool''])),
      Executed ''calc__neg'' ''{}'' (Returns (Inr ''unknown tool'')),
      LLMCall (human ''What is 2+2?'' @ tool_messages add_call ''4'' @
          tool_messages neg_call ''unknown tool'')
        (Inr (ContentResponse [ContentChoice ''The answer is 4.'' [add_call]]))])\<close>
  by (simp add: stream_defs example_defs tool_messages_def)

lemma leak_stream:
  \<open>GenerateContentAsStreaming leak_env calc_agent ''What is 2+2?'' False =
    (Returns (), [''["tool_call_delta"]'', ''4''],
     [LLMCall (human ''What is 2+2?'') (Inr (ContentResponse [ContentChoice [] [add_call]])),
      ProviderCall (MCPServer ''calc'' 0) ''add'' (Some ''{"a":2,"b":2}'')
        (Inr (CallToolResult False [''4''])),
      Executed ''calc__add'' ''{"a":2,"b":2}'' (Returns (Inr ''4'')),
      LLMCall (human ''What is 2+2?'' @ tool_messages add_call ''4'')
        (Inr (ContentResponse [ContentChoice ''4'' []]))])\<close>
  by (simp add: stream_defs example_defs tool_messages_def)



text \<open>
  Claim C3. A turn, blocking or streaming, performs at most one round of tool calls. Its
  trace is the first LLM call, then tool executions and provider contacts only, then at
  most one more LLM call, which is the last event of the turn. The tools executed are the
  requests of the first response, in order, from the first one on (all of them unless the
  turn is aborted). So there is no third LLM call, and the tool calls that the final
  response may request are never executed: nothing happens after that response.
\<close>

theorem at_most_one_round_of_tool_calls:
  "(\<exists>r1 body rest. snd (GenerateContent env m prompt addNotFinalResponses) =
        LLMCall (human prompt) r1 # body @ rest \<and>
      llm_calls body = [] \<and>
      prefix (executions body) (map call_key (first_toolCalls env m (human prompt))) \<and>
      (rest = [] \<or> (\<exists>msgs1 r2. rest = [LLMCall msgs1 r2]))) \<and>
   (\<exists>r1 body rest. snd (snd (GenerateContentAsStreaming env m prompt addNotFinalResponses)) =
        LLMCall (human prompt) r1 # body @ rest \<and>
      llm_calls body = [] \<and>
      prefix (executions body) (map call_key (first_toolCalls env m (human prompt))) \<and>
      (rest = [] \<or> (\<exists>msgs1 r2. rest = [LLMCall msgs1 r2])))"
  using GenerateContent_one_round [of env m prompt addNotFinalResponses]
    GenerateContentAsStreaming_one_round [of env m prompt addNotFinalResponses]
  by (rule conjI)

theorem at_most_one_round_of_tool_calls_witness:
  \<open>first_toolCalls calc_env calc_agent (human ''What is 2+2?'') = [add_call, neg_call] \<and>
   snd (GenerateContent calc_env calc_agent ''What is 2+2?'' False) =
     [LLMCall (human ''What is 2+2?'') (Inr (ContentResponse [ContentChoice [] [add_call, neg_call]])),
      ProviderCall (MCPServer ''calc'' 0) ''add'' (Some ''{"a":2,"b":2}'')
        (Inr (CallToolResult False [''4''])),
      Executed ''calc__add'' ''{"a":2,"b":2}'' (Returns (Inr ''4'')),
      ProviderCall (MCPServer ''calc'' 0) ''neg'' None (Inr (CallToolResult True [''unknown tool''])),
      Executed ''calc__neg'' ''{}'' (Returns (Inr ''unknown tool'')),
      LLMCall (human ''What is 2+2?'' @ tool_messages add_call ''4'' @
          tool_messages neg_call ''unknown tool'')
        (Inr (ContentResponse [ContentChoice ''The answer is 4.'' [add_call]]))] \<and>
   snd (snd (GenerateContentAsStreaming calc_env calc_agent ''What is 2+2?'' False)) =
     snd (GenerateContent calc_env calc_agent ''What is 2+2?'' False)\<close>
  using at_most_one_round_of_tool_calls [of calc_env calc_agent "''What is 2+2?''" False]
  by (simp add: calc_run calc_stream)
    (simp add: first_toolCalls_def first_response_def example_defs)

section \<open>Truncation\<close>






section \<open>Classification of streamed fragments\<close>

lemma streamingFunc_suppressed:
  "streamingFunc env chunk = (if suppressed env chunk then [] else [chunk])"
proof (cases "Unmarshal env chunk")
  case (Inl err)
  then show ?thesis
    by (simp add: streamingFunc_def suppressed_def Unmarshal_slice_def Unmarshal_map_def)
next
  case (Inr v)
  show ?thesis
  proof (cases v)
    case (JArray xs)
    with Inr show ?thesis
      by (cases xs)
        (simp_all add: streamingFunc_def suppressed_def Unmarshal_slice_def Unmarshal_map_def
          has_tool_calls_def)
  next
    case (JObject kvs)
    have "has_tool_calls (JObject kvs) \<longleftrightarrow>
        (case as_slice (map_of kvs ''choices'') of
           None \<Rightarrow> False
         | Some choices \<Rightarrow>
           (case choices of
              [] \<Rightarrow> False
            | choices0 # _ \<Rightarrow>
              (case as_map (Some choices0) of
                 None \<Rightarrow> False
               | Some choice \<Rightarrow>
                 (case as_slice (map_of choice ''tool_calls'') of
                    None \<Rightarrow> False
                  | Some toolCalls \<Rightarrow> length toolCalls > 0))))"
    proof (cases "map_of kvs ''choices''")
      case None
      then show ?thesis by (simp add: has_tool_calls_def)
    next
      case (Some choices)
      show ?thesis
      proof (cases choices)
        case (JArray cs)
        show ?thesis
        proof (cases cs)
          case Nil
          with Some JArray show ?thesis by (simp add: has_tool_calls_def)
        next
          case (Cons choices0 rest)
          show ?thesis
          proof (cases choices0)
            case (JObject choice)
            show ?thesis
            proof (cases "map_of choice ''tool_calls''")
              case None
              with Some JArray Cons JObject show ?thesis by (simp add: has_tool_calls_def)
            next
              case inner: (Some toolCalls)
              with Some JArray Cons JObject show ?thesis
                by (cases toolCalls rule: nonempty_array.cases) (simp_all add: has_tool_calls_def)
            qed
          qed (use Some JArray Cons in \<open>simp_all add: has_tool_calls_def\<close>)
        qed
      qed (use Some in \<open>simp_all add: has_tool_calls_def\<close>)
    qed
    with Inr JObject show ?thesis
      by (simp add: streamingFunc_def suppressed_def Unmarshal_slice_def Unmarshal_map_def)
  qed (use Inr in \<open>simp_all add: streamingFunc_def suppressed_def Unmarshal_slice_def
      Unmarshal_map_def has_tool_calls_def\<close>)
qed

lemma streamingFunc_filter:
  "concat (map (streamingFunc env) chunks) = filter (\<lambda>chunk. \<not> suppressed env chunk) chunks"
  by (induction chunks) (simp_all add: streamingFunc_suppressed)

text \<open>
  Claim C6, amended. The streaming function of the first LLM call suppresses a fragment if
  and only if it parses as a JSON array with at least one element, or as a JSON object
  whose \<open>choices\<close> list has a first element, an object, with a non-empty \<open>tool_calls\<close> list;
  it forwards every other fragment verbatim. So the channel of a streaming turn starts
  with the fragments of the first call that are not suppressed, in order. The fragments of
  the final LLM call are not classified: when the turn reaches that call, all its
  fragments are on the channel, verbatim and in order, followed by at most the error
  fragment.
\<close>

theorem fragments_of_the_first_call_are_classified:
  "streamingFunc env chunk = (if suppressed env chunk then [] else [chunk]) \<and>
   (GenerateContentAsStreaming env m prompt addNotFinalResponses = (out, chan, tr) \<longrightarrow>
      (\<exists>later. chan =
         filter (\<lambda>chunk. \<not> suppressed env chunk)
           (Chunks (LLMModel env [] (human prompt) (ExtractToolsFromAgent m))) @ later) \<and>
      (\<forall>tr1 msgs1 r2. tr = tr1 @ [LLMCall msgs1 r2] \<and> tr1 \<noteq> [] \<longrightarrow>
         (\<exists>earlier ending.
            chan = earlier @ Chunks (LLMModel env tr1 msgs1 (ExtractToolsFromAgent m)) @ ending \<and>
            length ending \<le> 1)))"
proof (intro conjI impI allI)
  show "streamingFunc env chunk = (if suppressed env chunk then [] else [chunk])"
    by (rule streamingFunc_suppressed)
next
  assume run: "GenerateContentAsStreaming env m prompt addNotFinalResponses = (out, chan, tr)"
  show "\<exists>later. chan =
         filter (\<lambda>chunk. \<not> suppressed env chunk)
           (Chunks (LLMModel env [] (human prompt) (ExtractToolsFromAgent m))) @ later"
  proof (cases env m "human prompt" rule: first_toolCalls_cases)
    case (fails err)
    from GenerateContentAsStreaming_first_fails [OF fails(1), of addNotFinalResponses] run
    show ?thesis by (simp add: streamingFunc_filter)
  next
    case (none resp)
    from GenerateContentAsStreaming_no_toolCalls [OF none(1) none(3), of addNotFinalResponses] run
    show ?thesis by (simp add: streamingFunc_filter)
  next
    case (some resp choice others)
    from GenerateContentAsStreaming_trace [OF some(1-3) run]
    show ?thesis by (auto simp: streamingFunc_filter)
  qed
next
  fix tr1 msgs1 r2
  assume run: "GenerateContentAsStreaming env m prompt addNotFinalResponses = (out, chan, tr)"
    and last: "tr = tr1 @ [LLMCall msgs1 r2] \<and> tr1 \<noteq> []"
  show "\<exists>earlier ending.
            chan = earlier @ Chunks (LLMModel env tr1 msgs1 (ExtractToolsFromAgent m)) @ ending \<and>
            length ending \<le> 1"
  proof (cases env m "human prompt" rule: first_toolCalls_cases)
    case (fails err)
    from GenerateContentAsStreaming_first_fails [OF fails(1), of addNotFinalResponses] run last
    show ?thesis by simp
  next
    case (none resp)
    from GenerateContentAsStreaming_no_toolCalls [OF none(1) none(3), of addNotFinalResponses] run last
    show ?thesis by simp
  next
    case (some resp choice others)
    from GenerateContentAsStreaming_trace [OF some(1-3) run]
    consider (abort) body where "tr = LLMCall (human prompt) (Inr resp) # body" "llm_calls body = []"
      | (final) body msgs2 g2 between where
        "tr = LLMCall (human prompt) (Inr resp) # body @ [LLMCall msgs2 (Result g2)]"
        "g2 = LLMModel env (LLMCall (human prompt) (Inr resp) # body) msgs2 (ExtractToolsFromAgent m)"
        "chan = concat (map (streamingFunc env)
                   (Chunks (LLMModel env [] (human prompt) (ExtractToolsFromAgent m)))) @
                between @ Chunks g2 @
                 (case Result g2 of
                    Inl err \<Rightarrow> [''Error generating final content: '' @ err]
                  | Inr finalResp \<Rightarrow> [])"
      by blast
    then show ?thesis
    proof cases
      case abort
      from last obtain e rest where "tr1 = e # rest" by (cases tr1) auto
      with abort(1) last have "body = rest @ [LLMCall msgs1 r2]" by simp
      with abort(2) show ?thesis by simp
    next
      case final
      with last have eq: "tr1 = LLMCall (human prompt) (Inr resp) # body" "msgs1 = msgs2"
        by (simp_all add: append_eq_append_conv)
      show ?thesis
        unfolding final(3) eq final(2) [symmetric]
        by (intro exI [of _ "concat (map (streamingFunc env)
                   (Chunks (LLMModel env [] (human prompt) (ExtractToolsFromAgent m)))) @ between"]
            exI [of _ "case Result g2 of
                    Inl err \<Rightarrow> [''Error generating final content: '' @ err]
                  | Inr finalResp \<Rightarrow> []"])
          (simp split: sum.splits)
    qed
  qed
qed

theorem fragments_of_the_first_call_are_classified_witness:
  \<open>streamingFunc calc_env ''["tool_call_delta"]'' = [] \<and>
   streamingFunc calc_env ''{"choices":[{"tool_calls":[{"id":"call_1"}]}]}'' = [] \<and>
   streamingFunc calc_env ''{"choices":[{"content":"Hi"}]}'' = [''{"choices":[{"content":"Hi"}]}''] \<and>
   streamingFunc calc_env ''Hi'' = [''Hi''] \<and>
   streamingFunc calc_env ''[]'' = [''[]''] \<and>
   streamingFunc calc_env ''null'' = [''null''] \<and>
   Chunks (LLMModel calc_env [] (human ''What is 2+2?'') (ExtractToolsFromAgent calc_agent)) =
     [''["tool_call_delta"]''] \<and>
   fst (snd (GenerateContentAsStreaming calc_env calc_agent ''What is 2+2?'' False)) =
     [''The answer is 4.'']\<close>
proof -
  note c = fragments_of_the_first_call_are_classified [of calc_env _ calc_agent "''What is 2+2?''" False
      "Returns ()" "[''The answer is 4.'']"
      "snd (snd (GenerateContentAsStreaming calc_env calc_agent ''What is 2+2?'' False))"]
  have u: "Unmarshal calc_env = example_Unmarshal" by (simp add: calc_env_def example_env_def)
  show ?thesis
    using c [of \<open>''["tool_call_delta"]''\<close>]
      c [of \<open>''{"choices":[{"tool_calls":[{"id":"call_1"}]}]}''\<close>]
      c [of \<open>''{"choices":[{"content":"Hi"}]}''\<close>]
      c [of "''Hi''"] c [of "''[]''"] c [of "''null''"]
    by (simp add: calc_stream suppressed_def has_tool_calls_def u example_Unmarshal_def)
      (simp add: calc_env_def example_env_def requests_def)
qed

text \<open>
  The claim as stated, for every raw fragment, fails on the fragments of the final LLM
  call. Here the text \<open>["tool_call_delta"]\<close>, a JSON array with one element, is suppressed
  as a fragment of the first call and forwarded as a fragment of the final call.
\<close>

theorem fragments_of_the_first_call_are_classified_counterexample:
  \<open>suppressed leak_env ''["tool_call_delta"]'' \<and>
   Chunks (LLMModel leak_env [] (human ''What is 2+2?'') (ExtractToolsFromAgent calc_agent)) =
     [''["tool_call_delta"]''] \<and>
   Chunks (LLMModel leak_env
       [LLMCall (human ''What is 2+2?'') (Inr (ContentResponse [ContentChoice [] [add_call]])),
        ProviderCall (MCPServer ''calc'' 0) ''add'' (Some ''{"a":2,"b":2}'')
          (Inr (CallToolResult False [''4''])),
        Executed ''calc__add'' ''{"a":2,"b":2}'' (Returns (Inr ''4''))]
       (human ''What is 2+2?'' @ tool_messages add_call ''4'')
       (ExtractToolsFromAgent calc_agent)) =
     [''["tool_call_delta"]'', ''4''] \<and>
   GenerateContentAsStreaming leak_env calc_agent ''What is 2+2?'' False =
     (Returns (), [''["tool_call_delta"]'', ''4''],
      [LLMCall (human ''What is 2+2?'') (Inr (ContentResponse [ContentChoice [] [add_call]])),
       ProviderCall (MCPServer ''calc'' 0) ''add'' (Some ''{"a":2,"b":2}'')
         (Inr (CallToolResult False [''4''])),
       Executed ''calc__add'' ''{"a":2,"b":2}'' (Returns (Inr ''4'')),
       LLMCall (human ''What is 2+2?'' @ tool_messages add_call ''4'')
         (Inr (ContentResponse [ContentChoice ''4'' []]))])\<close>
  by (simp add: leak_stream) (simp add: suppressed_def example_defs)

section \<open>The conversation returned to the caller\<close>












end
